theory Spec2Isabelle
  imports Complex_Main "HOL-Library.Word" "HOL-Library.Multiset" "HOL-Library.AList"
begin

section \<open>The unit record (class Unit and its subclasses)\<close>

text \<open>
  JavaScript numbers that only get stored, copied and compared are modelled as
  \<open>real\<close>; entity IDs are naturals. An exception raised by the code is a value of
  type \<open>error\<close>: \<open>TypeError\<close> is what JavaScript raises on reading a property of
  \<open>undefined\<close> or on calling something that is not a function; \<open>BufferUnderrun\<close>
  is the failure of a read past the end of the update buffer.
\<close>

type_synonym number = real

datatype error = TypeError | BufferUnderrun

subsection \<open>UnitData: the six sub-records held in the private field data\<close>

record BaseData =
  AI :: bool
  name :: string
  unitName :: string
  groupName :: string
  alive :: bool
  category :: string

record FlightData =
  latitude :: number
  longitude :: number
  altitude :: number
  heading :: number
  speed :: number

record MissionData =
  fuel :: number
  flags :: "(string \<times> bool) list"
  ammo :: "(string \<times> number) list"
  targets :: "(string \<times> nat list) list"
  hasTask :: bool
  coalition :: string

record FormationData =
  leaderID :: "nat option"

record TaskData =
  currentState :: string
  currentTask :: string
  activePath :: "(string \<times> number \<times> number) list option"
  targetSpeed :: number
  targetAltitude :: number
  isTanker :: bool
  isAWACS :: bool
  TACANOn :: bool
  TACANChannel :: number
  TACANXY :: string
  TACANCallsign :: string
  radioFrequency :: number
  radioCallsign :: number
  radioCallsignNumber :: number
  radioAMFM :: string

record OptionsData =
  ROE :: string
  reactionToThreat :: string

record UnitData =
  baseData :: BaseData
  flightData :: FlightData
  missionData :: MissionData
  formationData :: FormationData
  taskData :: TaskData
  optionsData :: OptionsData

subsection \<open>UpdateData: a partial update\<close>

text \<open>
  The object handed to \<open>setData\<close>. The code asks \<open>data.baseData != undefined\<close> for each
  sub-record and \<open>key in data.baseData\<close> for each field, so both levels are optional:
  \<open>None\<close> is an absent sub-record or an absent key, \<open>Some v\<close> a key present with
  value \<open>v\<close>. Keys of the update that the unit's own sub-record does not have are never
  looked at by the code and are left out.
\<close>

record BaseUpdate =
  upd_AI :: "bool option"
  upd_name :: "string option"
  upd_unitName :: "string option"
  upd_groupName :: "string option"
  upd_alive :: "bool option"
  upd_category :: "string option"

record FlightUpdate =
  upd_latitude :: "number option"
  upd_longitude :: "number option"
  upd_altitude :: "number option"
  upd_heading :: "number option"
  upd_speed :: "number option"

record MissionUpdate =
  upd_fuel :: "number option"
  upd_flags :: "(string \<times> bool) list option"
  upd_ammo :: "(string \<times> number) list option"
  upd_targets :: "(string \<times> nat list) list option"
  upd_hasTask :: "bool option"
  upd_coalition :: "string option"

record FormationUpdate =
  upd_leaderID :: "nat option option"

record TaskUpdate =
  upd_currentState :: "string option"
  upd_currentTask :: "string option"
  upd_activePath :: "(string \<times> number \<times> number) list option option"
  upd_targetSpeed :: "number option"
  upd_targetAltitude :: "number option"
  upd_isTanker :: "bool option"
  upd_isAWACS :: "bool option"
  upd_TACANOn :: "bool option"
  upd_TACANChannel :: "number option"
  upd_TACANXY :: "string option"
  upd_TACANCallsign :: "string option"
  upd_radioFrequency :: "number option"
  upd_radioCallsign :: "number option"
  upd_radioCallsignNumber :: "number option"
  upd_radioAMFM :: "string option"

record OptionsUpdate =
  upd_ROE :: "string option"
  upd_reactionToThreat :: "string option"

record UpdateData =
  upd_baseData :: "BaseUpdate option"
  upd_flightData :: "FlightUpdate option"
  upd_missionData :: "MissionUpdate option"
  upd_formationData :: "FormationUpdate option"
  upd_taskData :: "TaskUpdate option"
  upd_optionsData :: "OptionsUpdate option"

subsection \<open>The unit object\<close>

text \<open>
  \<open>unit_class\<close> is the concrete class chosen by \<open>Unit.getConstructor\<close>. The fields
  \<open>ID\<close> to \<open>hidden\<close> are those of class Unit; \<open>onMap\<close> is \<open>getMap().hasLayer(this)\<close>.
  The last four fields are what \<open>UnitsManager\<close> reads and writes through \<open>getHotgroup\<close>,
  \<open>getGroup\<close>, \<open>getContacts\<close> and \<open>setDetectionMethods\<close>.
\<close>

datatype unit_class = GroundUnit | Aircraft | Helicopter | Missile | Bomb | NavyUnit

record Contact =
  contactID :: nat
  detectionMethod :: nat

record Unit =
  ID :: nat
  cls :: unit_class
  data :: UnitData
  selectable :: bool
  selected :: bool
  hidden :: bool
  onMap :: bool
  hotgroup :: "nat option"
  group :: "string option"
  contacts :: "Contact list"
  detectionMethods :: "nat list"

text \<open>
  What the unit code reads from its surroundings: the attribute names present on
  \<open>document.body\<close>, and the first role the ground-unit database lists for a unit name.
\<close>

record Env =
  bodyAttributes :: "string list"
  groundUnitRole :: "string \<Rightarrow> string option"

text \<open>The field initialisers of class Unit.\<close>

definition initialData :: UnitData where
  "initialData =
     \<lparr> baseData = \<lparr> AI = False, name = '''', unitName = '''', groupName = '''',
                      alive = True, category = '''' \<rparr>,
       flightData = \<lparr> latitude = 0, longitude = 0, altitude = 0, heading = 0, speed = 0 \<rparr>,
       missionData = \<lparr> fuel = 0, flags = [], ammo = [], targets = [], hasTask = False,
                         coalition = '''' \<rparr>,
       formationData = \<lparr> leaderID = Some 0 \<rparr>,
       taskData = \<lparr> currentState = ''IDLE'', currentTask = '''', activePath = Some [],
                      targetSpeed = 0, targetAltitude = 0, isTanker = False, isAWACS = False,
                      TACANOn = False, TACANChannel = 0, TACANXY = ''X'', TACANCallsign = '''',
                      radioFrequency = 0, radioCallsign = 0, radioCallsignNumber = 0,
                      radioAMFM = ''AM'' \<rparr>,
       optionsData = \<lparr> ROE = '''', reactionToThreat = '''' \<rparr> \<rparr>"

definition getConstructor :: "string \<Rightarrow> unit_class option" where
  "getConstructor type =
     (if type = ''GroundUnit'' then Some GroundUnit
      else if type = ''Aircraft'' then Some Aircraft
      else if type = ''Helicopter'' then Some Helicopter
      else if type = ''Missile'' then Some Missile
      else if type = ''Bomb'' then Some Bomb
      else if type = ''NavyUnit'' then Some NavyUnit
      else None)"

text \<open>
  \<open>getMarkerCategory\<close>: the base class returns the empty string; Helicopter does not
  override it (it defines \<open>getVisibilityCategory\<close> instead).
\<close>

definition getMarkerCategory :: "Env \<Rightarrow> Unit \<Rightarrow> string" where
  "getMarkerCategory env u =
     (case cls u of
        Aircraft \<Rightarrow> ''aircraft''
      | Helicopter \<Rightarrow> ''''
      | GroundUnit \<Rightarrow>
          (if groundUnitRole env (name (baseData (data u))) = Some ''SAM''
           then ''sam'' else ''groundunit'')
      | NavyUnit \<Rightarrow> ''navyunit''
      | Missile \<Rightarrow> ''missile''
      | Bomb \<Rightarrow> ''bomb'')"

abbreviation getSelected :: "Unit \<Rightarrow> bool" where
  "getSelected u \<equiv> selected u"

abbreviation getSelectable :: "Unit \<Rightarrow> bool" where
  "getSelectable u \<equiv> selectable u"

abbreviation getHidden :: "Unit \<Rightarrow> bool" where
  "getHidden u \<equiv> hidden u"

text \<open>
  Modelled from the spec: \<open>Unit.getAlive\<close>, which \<open>UnitsManager\<close> calls and the Unit
  class of the sources does not have; it reads the alive flag.
\<close>

definition getAlive :: "Unit \<Rightarrow> bool" where
  "getAlive u = alive (baseData (data u))"

definition setSelected :: "Unit \<Rightarrow> bool \<Rightarrow> Unit" where
  "setSelected u sel =
     (if (alive (baseData (data u)) \<or> \<not> sel) \<and> getSelectable u \<and> getSelected u \<noteq> sel
      then u\<lparr>selected := sel\<rparr> else u)"

definition setSelectable :: "Unit \<Rightarrow> bool \<Rightarrow> Unit" where
  "setSelectable u b = u\<lparr>selectable := b\<rparr>"

definition setHidden :: "Unit \<Rightarrow> bool \<Rightarrow> Unit" where
  "setHidden u h =
     (let u1 = u\<lparr>hidden := h\<rparr>;
          u2 = (if \<not> onMap u1 \<and> \<not> getHidden u1 then u1\<lparr>onMap := True\<rparr> else u1)
      in if onMap u2 \<and> getHidden u2 then u2\<lparr>onMap := False\<rparr> else u2)"

definition hasBodyAttribute :: "Env \<Rightarrow> string \<Rightarrow> bool" where
  "hasBodyAttribute env a = (a \<in> set (bodyAttributes env))"

definition updateVisibility :: "Env \<Rightarrow> Unit \<Rightarrow> Unit" where
  "updateVisibility env u =
     setHidden u
       (hasBodyAttribute env (''data-hide-'' @ coalition (missionData (data u))) \<or>
        hasBodyAttribute env (''data-hide-'' @ getMarkerCategory env u) \<or>
        \<not> alive (baseData (data u)))"

subsection \<open>setData: merging a partial update\<close>

definition setField :: "'a option \<Rightarrow> 'a \<Rightarrow> 'a" where
  "setField new old = (case new of None \<Rightarrow> old | Some v \<Rightarrow> v)"

definition mergeBase :: "BaseData \<Rightarrow> BaseUpdate \<Rightarrow> BaseData" where
  "mergeBase b n =
     \<lparr> AI = setField (upd_AI n) (AI b), name = setField (upd_name n) (name b),
       unitName = setField (upd_unitName n) (unitName b),
       groupName = setField (upd_groupName n) (groupName b),
       alive = setField (upd_alive n) (alive b),
       category = setField (upd_category n) (category b) \<rparr>"

definition mergeFlight :: "FlightData \<Rightarrow> FlightUpdate \<Rightarrow> FlightData" where
  "mergeFlight f n =
     \<lparr> latitude = setField (upd_latitude n) (latitude f),
       longitude = setField (upd_longitude n) (longitude f),
       altitude = setField (upd_altitude n) (altitude f),
       heading = setField (upd_heading n) (heading f),
       speed = setField (upd_speed n) (speed f) \<rparr>"

definition mergeMission :: "MissionData \<Rightarrow> MissionUpdate \<Rightarrow> MissionData" where
  "mergeMission m n =
     \<lparr> fuel = setField (upd_fuel n) (fuel m), flags = setField (upd_flags n) (flags m),
       ammo = setField (upd_ammo n) (ammo m), targets = setField (upd_targets n) (targets m),
       hasTask = setField (upd_hasTask n) (hasTask m),
       coalition = setField (upd_coalition n) (coalition m) \<rparr>"

definition mergeFormation :: "FormationData \<Rightarrow> FormationUpdate \<Rightarrow> FormationData" where
  "mergeFormation f n = \<lparr> leaderID = setField (upd_leaderID n) (leaderID f) \<rparr>"

definition mergeTask :: "TaskData \<Rightarrow> TaskUpdate \<Rightarrow> TaskData" where
  "mergeTask t n =
     \<lparr> currentState = setField (upd_currentState n) (currentState t),
       currentTask = setField (upd_currentTask n) (currentTask t),
       activePath = setField (upd_activePath n) (activePath t),
       targetSpeed = setField (upd_targetSpeed n) (targetSpeed t),
       targetAltitude = setField (upd_targetAltitude n) (targetAltitude t),
       isTanker = setField (upd_isTanker n) (isTanker t),
       isAWACS = setField (upd_isAWACS n) (isAWACS t),
       TACANOn = setField (upd_TACANOn n) (TACANOn t),
       TACANChannel = setField (upd_TACANChannel n) (TACANChannel t),
       TACANXY = setField (upd_TACANXY n) (TACANXY t),
       TACANCallsign = setField (upd_TACANCallsign n) (TACANCallsign t),
       radioFrequency = setField (upd_radioFrequency n) (radioFrequency t),
       radioCallsign = setField (upd_radioCallsign n) (radioCallsign t),
       radioCallsignNumber = setField (upd_radioCallsignNumber n) (radioCallsignNumber t),
       radioAMFM = setField (upd_radioAMFM n) (radioAMFM t) \<rparr>"

definition mergeOptions :: "OptionsData \<Rightarrow> OptionsUpdate \<Rightarrow> OptionsData" where
  "mergeOptions p n =
     \<lparr> ROE = setField (upd_ROE n) (ROE p),
       reactionToThreat = setField (upd_reactionToThreat n) (reactionToThreat p) \<rparr>"

text \<open>The six guarded loops of \<open>setData\<close>, one per sub-record.\<close>

definition mergeData :: "UnitData \<Rightarrow> UpdateData \<Rightarrow> UnitData" where
  "mergeData d n =
     \<lparr> baseData = (case upd_baseData n of None \<Rightarrow> baseData d
                     | Some b \<Rightarrow> mergeBase (baseData d) b),
       flightData = (case upd_flightData n of None \<Rightarrow> flightData d
                     | Some f \<Rightarrow> mergeFlight (flightData d) f),
       missionData = (case upd_missionData n of None \<Rightarrow> missionData d
                     | Some m \<Rightarrow> mergeMission (missionData d) m),
       formationData = (case upd_formationData n of None \<Rightarrow> formationData d
                     | Some f \<Rightarrow> mergeFormation (formationData d) f),
       taskData = (case upd_taskData n of None \<Rightarrow> taskData d
                     | Some t \<Rightarrow> mergeTask (taskData d) t),
       optionsData = (case upd_optionsData n of None \<Rightarrow> optionsData d
                     | Some p \<Rightarrow> mergeOptions (optionsData d) p) \<rparr>"

text \<open>
  \<open>setData\<close>. Its first three statements read \<open>data.flightData.latitude\<close>,
  \<open>data.flightData.heading\<close> and \<open>data.baseData.alive\<close> with no test that the sub-record
  is there: on an update without \<open>flightData\<close> or without \<open>baseData\<close> JavaScript raises
  TypeError before anything is written, and the unit object stays as it was (\<open>Inl\<close>).
  Drawing of paths and target lines and the \<open>unitUpdated\<close> event touch no modelled field.
\<close>

definition setData :: "Env \<Rightarrow> Unit \<Rightarrow> UpdateData \<Rightarrow> error + Unit" where
  "setData env u d =
     (case upd_flightData d of
        None \<Rightarrow> Inl TypeError
      | Some fd \<Rightarrow>
         (case upd_baseData d of
            None \<Rightarrow> Inl TypeError
          | Some bd \<Rightarrow>
             (let positionChanged =
                    (upd_latitude fd \<noteq> None \<and> upd_longitude fd \<noteq> None \<and>
                     (Some (latitude (flightData (data u))) \<noteq> upd_latitude fd \<or>
                      Some (longitude (flightData (data u))) \<noteq> upd_longitude fd));
                  headingChanged =
                    (upd_heading fd \<noteq> None \<and>
                     Some (heading (flightData (data u))) \<noteq> upd_heading fd);
                  aliveChanged =
                    (upd_alive bd \<noteq> None \<and> Some (alive (baseData (data u))) \<noteq> upd_alive bd);
                  updateMarker =
                    (positionChanged \<or> headingChanged \<or> aliveChanged \<or> \<not> onMap u);
                  u1 = u\<lparr>data := mergeData (data u) d\<rparr>;
                  u2 = setSelected u1
                         (getSelected u1 \<and> alive (baseData (data u1)) \<and> \<not> getHidden u1)
              in Inr (if updateMarker then updateVisibility env u2 else u2))))"

text \<open>The unit object after a call of \<open>setData\<close>, whether it returned or raised.\<close>

definition afterSetData :: "Env \<Rightarrow> Unit \<Rightarrow> UpdateData \<Rightarrow> Unit" where
  "afterSetData env u d = (case setData env u d of Inl e \<Rightarrow> u | Inr u' \<Rightarrow> u')"

text \<open>
  The constructors \<open>new C(ID, data)\<close>: the Unit constructor sets \<open>selectable\<close> and calls
  \<open>setData(data)\<close>; the Weapon constructor (Missile, Bomb) then calls
  \<open>setSelectable(false)\<close>. A TypeError of \<open>setData\<close> leaves no object.
\<close>

definition blankUnit :: "unit_class \<Rightarrow> nat \<Rightarrow> Unit" where
  "blankUnit c i =
     \<lparr> ID = i, cls = c, data = initialData, selectable = True, selected = False,
       hidden = False, onMap = False, hotgroup = None, group = None, contacts = [],
       detectionMethods = [] \<rparr>"

definition isWeapon :: "unit_class \<Rightarrow> bool" where
  "isWeapon c = (c = Missile \<or> c = Bomb)"

definition newUnit :: "Env \<Rightarrow> unit_class \<Rightarrow> nat \<Rightarrow> UpdateData \<Rightarrow> error + Unit" where
  "newUnit env c i d =
     (case setData env (blankUnit c i) d of
        Inl e \<Rightarrow> Inl e
      | Inr u \<Rightarrow> Inr (if isWeapon c then setSelectable u False else u))"

section \<open>The units manager (class UnitsManager)\<close>

subsection \<open>The byte cursor\<close>

text \<open>
  Modelled from the spec: class \<open>DataExtractor\<close> (\<open>../server/dataextractor\<close>), which
  \<open>update\<close> uses and the sources do not hold. It wraps the byte buffer with a read offset
  that starts at 0; every extraction advances the offset by the bytes it consumed and
  fails (\<open>BufferUnderrun\<close>) when it would read past the end; a string carries an explicit
  length prefix. The spec fixes neither the byte order nor the width of the prefix:
  little-endian integers and a 16-bit prefix are taken, and no theorem below depends on
  either choice.
\<close>

type_synonym byte = "8 word"

record DataExtractor =
  buffer :: "byte list"
  seekPosition :: nat

definition newDataExtractor :: "byte list \<Rightarrow> DataExtractor" where
  "newDataExtractor buf = \<lparr> buffer = buf, seekPosition = 0 \<rparr>"

abbreviation getSeekPosition :: "DataExtractor \<Rightarrow> nat" where
  "getSeekPosition d \<equiv> seekPosition d"

definition byteLength :: "DataExtractor \<Rightarrow> nat" where
  "byteLength d = length (buffer d)"

fun uintLE :: "byte list \<Rightarrow> nat" where
  "uintLE [] = 0"
| "uintLE (b # bs) = unat b + 256 * uintLE bs"

definition extractBytes :: "nat \<Rightarrow> DataExtractor \<Rightarrow> error + (byte list \<times> DataExtractor)" where
  "extractBytes n d =
     (if seekPosition d + n \<le> length (buffer d)
      then Inr (take n (drop (seekPosition d) (buffer d)),
                d\<lparr>seekPosition := seekPosition d + n\<rparr>)
      else Inl BufferUnderrun)"

definition extractUInt :: "nat \<Rightarrow> DataExtractor \<Rightarrow> error + (nat \<times> DataExtractor)" where
  "extractUInt n d =
     (case extractBytes n d of Inl e \<Rightarrow> Inl e | Inr (bs, d') \<Rightarrow> Inr (uintLE bs, d'))"

definition extractUInt8 :: "DataExtractor \<Rightarrow> error + (nat \<times> DataExtractor)" where
  "extractUInt8 = extractUInt 1"

definition extractUInt16 :: "DataExtractor \<Rightarrow> error + (nat \<times> DataExtractor)" where
  "extractUInt16 = extractUInt 2"

definition extractUInt32 :: "DataExtractor \<Rightarrow> error + (nat \<times> DataExtractor)" where
  "extractUInt32 = extractUInt 4"

definition extractUInt64 :: "DataExtractor \<Rightarrow> error + (nat \<times> DataExtractor)" where
  "extractUInt64 = extractUInt 8"

definition extractString :: "DataExtractor \<Rightarrow> error + (string \<times> DataExtractor)" where
  "extractString d =
     (case extractUInt16 d of
        Inl e \<Rightarrow> Inl e
      | Inr (n, d1) \<Rightarrow>
         (case extractBytes n d1 of
            Inl e \<Rightarrow> Inl e
          | Inr (bs, d2) \<Rightarrow> Inr (map (\<lambda>b. char_of (unat b)) bs, d2)))"

subsection \<open>Groups\<close>

text \<open>
  Modelled from the spec: class \<open>Group\<close> (\<open>./group\<close>), a named collection of the units
  that share a group name. A member is recorded by its ID; \<open>addMember\<close> makes the unit a
  member and sets the unit's own group reference, which \<open>getGroup\<close> returns (null, here
  \<open>None\<close>, until then). There is one Group object per name, so the reference is the name.
\<close>

record Group =
  groupNameOf :: string
  members :: "nat list"

definition newGroup :: "string \<Rightarrow> Group" where
  "newGroup n = \<lparr> groupNameOf = n, members = [] \<rparr>"

text \<open>
  Modelled from the spec: the accessors of the unit that \<open>UnitsManager\<close> calls and the
  Unit class of the sources does not have. \<open>getGroup\<close>, \<open>getHotgroup\<close> and \<open>getContacts\<close>
  read the field of that name, \<open>getGroupName\<close> reads the group name of the base
  sub-record, and \<open>setDetectionMethods\<close> stores the list it is given.
\<close>

abbreviation getGroup :: "Unit \<Rightarrow> string option" where
  "getGroup u \<equiv> group u"

definition getGroupName :: "Unit \<Rightarrow> string" where
  "getGroupName u = groupName (baseData (data u))"

abbreviation getHotgroup :: "Unit \<Rightarrow> nat option" where
  "getHotgroup u \<equiv> hotgroup u"

abbreviation getContacts :: "Unit \<Rightarrow> Contact list" where
  "getContacts u \<equiv> contacts u"

definition setDetectionMethods :: "Unit \<Rightarrow> nat list \<Rightarrow> Unit" where
  "setDetectionMethods u ms = u\<lparr>detectionMethods := ms\<rparr>"

subsection \<open>The manager's state\<close>

text \<open>
  \<open>units\<close> is the object \<open>#units\<close>: its keys are integers, which JavaScript enumerates in
  ascending order, so the table is kept as a list ordered by ID. \<open>groups\<close> holds the own
  properties of \<open>#groups\<close>. An object reference to a unit is its entry in the table.
\<close>

record UnitsManager =
  units :: "(nat \<times> Unit) list"
  groups :: "(string \<times> Group) list"
  requestDetectionUpdate :: bool

text \<open>
  What \<open>update\<close> reads from the application: whether the command mode is
  \<open>GAME_MASTER\<close>, the commanded coalition, and the IDs held by the weapons manager.
\<close>

record App =
  gameMaster :: bool
  commandedCoalition :: string
  weaponIDs :: "nat list"

text \<open>
  What \<open>update\<close> takes from the unit class and the constants module, neither of which
  the sources hold in the version \<open>UnitsManager\<close> is written against:
  \<open>categoryIndex\<close> is \<open>DataIndexes.category\<close>; \<open>unitSetData u bs\<close> is
  \<open>u.setData(dataExtractor)\<close> with \<open>bs\<close> the unread bytes, giving the unit after the
  call, the number of bytes it read, and whether it dispatched \<open>contactsUpdated\<close>
  (on which the manager's listener sets \<open>#requestDetectionUpdate\<close>).
\<close>

record Decoder =
  categoryIndex :: nat
  unitSetData :: "Unit \<Rightarrow> byte list \<Rightarrow> error + (Unit \<times> nat \<times> bool)"

definition getUnitByID :: "UnitsManager \<Rightarrow> nat \<Rightarrow> Unit option" where
  "getUnitByID m i = map_of (units m) i"

definition hasUnit :: "UnitsManager \<Rightarrow> nat \<Rightarrow> bool" where
  "hasUnit m i = (map_of (units m) i \<noteq> None)"

text \<open>\<open>this.#units[ID] = u\<close>: the entry is replaced, or added at its place in the order.\<close>

fun putUnit :: "nat \<Rightarrow> Unit \<Rightarrow> (nat \<times> Unit) list \<Rightarrow> (nat \<times> Unit) list" where
  "putUnit i u [] = [(i, u)]"
| "putUnit i u ((j, v) # us) =
     (if i < j then (i, u) # (j, v) # us
      else if i = j then (i, u) # us
      else (j, v) # putUnit i u us)"

text \<open>
  Modelled from the spec: the one-argument constructor \<open>new constructor(ID)\<close> that
  \<open>addUnit\<close> calls (the Unit class of the sources takes the first update as well). The
  new object has the field initialisers of the class; a weapon is not selectable.
\<close>

definition constructUnit :: "unit_class \<Rightarrow> nat \<Rightarrow> Unit" where
  "constructUnit c i =
     (if isWeapon c then setSelectable (blankUnit c i) False else blankUnit c i)"

definition addUnit :: "UnitsManager \<Rightarrow> nat \<Rightarrow> string \<Rightarrow> UnitsManager" where
  "addUnit m i cat =
     (if cat \<noteq> '''' then
        (case getConstructor cat of
           Some c \<Rightarrow> m\<lparr>units := putUnit i (constructUnit c i) (units m)\<rparr>
         | None \<Rightarrow> m)
      else m)"

subsection \<open>update: the decode loop\<close>

text \<open>
  One pass through the body of the \<open>while\<close> loop. \<open>Continue\<close> goes back to the loop
  test, \<open>Return\<close> is the \<open>return updateTime\<close> inside the loop, \<open>Throw\<close> an exception
  that leaves \<open>update\<close>; each carries the manager's state at that point.
\<close>

datatype step_result =
  Continue UnitsManager DataExtractor
| Return UnitsManager
| Throw error UnitsManager

definition remainingBytes :: "DataExtractor \<Rightarrow> byte list" where
  "remainingBytes d = drop (seekPosition d) (buffer d)"

definition callSetData :: "Decoder \<Rightarrow> UnitsManager \<Rightarrow> nat \<Rightarrow> DataExtractor \<Rightarrow> step_result" where
  "callSetData dec m i d =
     (case getUnitByID m i of
        None \<Rightarrow> Continue m d
      | Some u \<Rightarrow>
         (case unitSetData dec u (remainingBytes d) of
            Inl e \<Rightarrow> Throw e m
          | Inr (u', n, contactsUpdated) \<Rightarrow>
             if seekPosition d + n \<le> length (buffer d)
             then Continue
                    (m\<lparr>units := putUnit i u' (units m),
                       requestDetectionUpdate := (requestDetectionUpdate m \<or> contactsUpdated)\<rparr>)
                    (d\<lparr>seekPosition := seekPosition d + n\<rparr>)
             else Throw BufferUnderrun m))"

definition decodeEntity :: "Decoder \<Rightarrow> UnitsManager \<Rightarrow> DataExtractor \<Rightarrow> step_result" where
  "decodeEntity dec m d =
     (case extractUInt32 d of
        Inl e \<Rightarrow> Throw e m
      | Inr (i, d1) \<Rightarrow>
         if \<not> hasUnit m i then
           (case extractUInt8 d1 of
              Inl e \<Rightarrow> Throw e m
            | Inr (datumIndex, d2) \<Rightarrow>
               if datumIndex = categoryIndex dec then
                 (case extractString d2 of
                    Inl e \<Rightarrow> Throw e m
                  | Inr (cat, d3) \<Rightarrow> callSetData dec (addUnit m i cat) i d3)
               else Return m)
         else callSetData dec m i d1)"

datatype loop_result =
  Finished UnitsManager
| Aborted UnitsManager
| Raised error UnitsManager

text \<open>
  The \<open>while\<close> loop. A pass that continues has read the four bytes of an ID at least, so
  the unread part of the buffer shrinks and the loop ends (proved below, after the facts
  about the cursor).
\<close>

function decodeLoop :: "Decoder \<Rightarrow> UnitsManager \<Rightarrow> DataExtractor \<Rightarrow> loop_result" where
  "decodeLoop dec m d =
     (if getSeekPosition d < byteLength d then
        (case decodeEntity dec m d of
           Continue m' d' \<Rightarrow> decodeLoop dec m' d'
         | Return m' \<Rightarrow> Aborted m'
         | Throw e m' \<Rightarrow> Raised e m')
      else Finished m)"
  by pat_completeness auto

text \<open>
  The state of the loop after \<open>n\<close> passes through its body, when it gets that far.
\<close>

fun afterPasses :: "Decoder \<Rightarrow> nat \<Rightarrow> UnitsManager \<Rightarrow> DataExtractor
                      \<Rightarrow> (UnitsManager \<times> DataExtractor) option" where
  "afterPasses dec 0 m d = Some (m, d)"
| "afterPasses dec (Suc n) m d =
     (if getSeekPosition d < byteLength d then
        (case decodeEntity dec m d of
           Continue m' d' \<Rightarrow> afterPasses dec n m' d'
         | Return m' \<Rightarrow> None
         | Throw e m' \<Rightarrow> None)
      else None)"

subsection \<open>update: group assignment\<close>

text \<open>
  \<open>groupName in this.#groups\<close>: the operator \<open>in\<close> also finds the properties that the
  object literal \<open>{}\<close> inherits from \<open>Object.prototype\<close>. For such a name no Group is
  created, \<open>this.#groups[groupName]\<close> is the inherited value, and calling its
  \<open>addMember\<close> raises TypeError.
\<close>

definition objectPrototypeKeys :: "string list" where
  "objectPrototypeKeys =
     [''constructor'', ''__defineGetter__'', ''__defineSetter__'', ''hasOwnProperty'',
      ''__lookupGetter__'', ''__lookupSetter__'', ''isPrototypeOf'', ''propertyIsEnumerable'',
      ''toString'', ''valueOf'', ''__proto__'', ''toLocaleString'']"

definition inGroups :: "string \<Rightarrow> (string \<times> Group) list \<Rightarrow> bool" where
  "inGroups n gs = (map_of gs n \<noteq> None \<or> n \<in> set objectPrototypeKeys)"

text \<open>
  Modelled from the spec: \<open>Group.addMember\<close>, see above. The unit joins the group
  \<open>n\<close> and its group reference is set.
\<close>

definition addMember :: "UnitsManager \<Rightarrow> string \<Rightarrow> Group \<Rightarrow> nat \<Rightarrow> Unit \<Rightarrow> UnitsManager" where
  "addMember m n g i u =
     m\<lparr>groups := AList.update n (g\<lparr>members := members g @ [i]\<rparr>) (groups m),
       units := putUnit i (u\<lparr>group := Some n\<rparr>) (units m)\<rparr>"

text \<open>The body of the loop \<open>for (let ID in this.#units)\<close> that updates the groups.\<close>

definition assignGroup :: "UnitsManager \<Rightarrow> nat \<Rightarrow> error + UnitsManager" where
  "assignGroup m i =
     (case getUnitByID m i of
        None \<Rightarrow> Inl TypeError
      | Some unit \<Rightarrow>
         (let groupName = getGroupName unit in
          if groupName \<noteq> '''' then
            (let m1 = (if \<not> inGroups groupName (groups m)
                       then m\<lparr>groups := groups m @ [(groupName, newGroup groupName)]\<rparr>
                       else m)
             in if getGroup unit = None then
                  (case map_of (groups m1) groupName of
                     None \<Rightarrow> Inl TypeError
                   | Some g \<Rightarrow> Inr (addMember m1 groupName g i unit))
                else Inr m1)
          else Inr m))"

fun assignGroups :: "UnitsManager \<Rightarrow> nat list \<Rightarrow> error option \<times> UnitsManager" where
  "assignGroups m [] = (None, m)"
| "assignGroups m (i # is) =
     (case assignGroup m i of
        Inl e \<Rightarrow> (Some e, m)
      | Inr m' \<Rightarrow> assignGroups m' is)"

definition updateGroups :: "UnitsManager \<Rightarrow> error option \<times> UnitsManager" where
  "updateGroups m = assignGroups m (map fst (units m))"

subsection \<open>update: detection methods\<close>

text \<open>
  Modelled from the spec: \<open>Unit.belongsToCommandedCoalition\<close>, the unit is of the side
  the local client commands.
\<close>

definition belongsToCommandedCoalition :: "App \<Rightarrow> Unit \<Rightarrow> bool" where
  "belongsToCommandedCoalition app u =
     (coalition (missionData (data u)) = commandedCoalition app)"

text \<open>
  The dictionary \<open>detectionMethods\<close>: an empty list for the ID of every unit and of every
  weapon, then filled from the contacts of the units in the order of the table.
\<close>

type_synonym detection_table = "nat \<Rightarrow> nat list option"

definition emptyDetections :: "App \<Rightarrow> UnitsManager \<Rightarrow> detection_table" where
  "emptyDetections app m =
     (\<lambda>i. if i \<in> set (map fst (units m)) \<or> i \<in> set (weaponIDs app) then Some [] else None)"

definition noteContact :: "detection_table \<Rightarrow> Contact \<Rightarrow> detection_table" where
  "noteContact t c =
     (case t (contactID c) of
        None \<Rightarrow> t
      | Some ms \<Rightarrow>
         if detectionMethod c \<notin> set ms
         then t(contactID c \<mapsto> ms @ [detectionMethod c]) else t)"

definition noteUnit :: "App \<Rightarrow> detection_table \<Rightarrow> Unit \<Rightarrow> detection_table" where
  "noteUnit app t u =
     (if getAlive u \<and> belongsToCommandedCoalition app u
      then foldl noteContact t (getContacts u) else t)"

definition fillDetections :: "App \<Rightarrow> UnitsManager \<Rightarrow> detection_table" where
  "fillDetections app m = foldl (noteUnit app) (emptyDetections app m) (map snd (units m))"

definition setAllDetections :: "detection_table \<Rightarrow> (nat \<times> Unit) list \<Rightarrow> (nat \<times> Unit) list" where
  "setAllDetections t us =
     map (\<lambda>(i, u). (i, (case t i of None \<Rightarrow> u | Some ms \<Rightarrow> setDetectionMethods u ms))) us"

definition updateDetection :: "App \<Rightarrow> UnitsManager \<Rightarrow> UnitsManager" where
  "updateDetection app m =
     (if requestDetectionUpdate m \<and> \<not> gameMaster app
      then m\<lparr>units := setAllDetections (fillDetections app m) (units m),
             requestDetectionUpdate := False\<rparr>
      else m)"

subsection \<open>update\<close>

text \<open>
  \<open>update(buffer)\<close> returns \<open>updateTime\<close> or leaves by an exception, and in both cases
  the manager is left in a new state. \<open>updateTime\<close> is \<open>Number(...)\<close> of the 64-bit
  value read, the same integer below \<open>2^53\<close>. Detection lists of weapons live in the
  weapons manager and drawing of lines touches no modelled field.
\<close>

datatype outcome = Returned nat | Threw error

definition afterLoop :: "App \<Rightarrow> nat \<Rightarrow> UnitsManager \<Rightarrow> outcome \<times> UnitsManager" where
  "afterLoop app updateTime m =
     (case updateGroups m of
        (Some e, m1) \<Rightarrow> (Threw e, m1)
      | (None, m1) \<Rightarrow> (Returned updateTime, updateDetection app m1))"

definition update :: "Decoder \<Rightarrow> App \<Rightarrow> UnitsManager \<Rightarrow> byte list \<Rightarrow> outcome \<times> UnitsManager" where
  "update dec app m buf =
     (case extractUInt64 (newDataExtractor buf) of
        Inl e \<Rightarrow> (Threw e, m)
      | Inr (updateTime, d) \<Rightarrow>
         (case decodeLoop dec m d of
            Aborted m1 \<Rightarrow> (Returned updateTime, m1)
          | Raised e m1 \<Rightarrow> (Threw e, m1)
          | Finished m1 \<Rightarrow> afterLoop app updateTime m1))"

subsection \<open>Selection by hotgroup\<close>

definition getUnitsByHotgroup :: "UnitsManager \<Rightarrow> nat \<Rightarrow> (nat \<times> Unit) list" where
  "getUnitsByHotgroup m h =
     filter (\<lambda>(i, unit). getAlive unit \<and> getHotgroup unit = Some h) (units m)"

definition deselectAllUnits :: "UnitsManager \<Rightarrow> UnitsManager" where
  "deselectAllUnits m = m\<lparr>units := map (\<lambda>(i, u). (i, setSelected u False)) (units m)\<rparr>"

definition selectEach :: "UnitsManager \<Rightarrow> (nat \<times> Unit) list \<Rightarrow> UnitsManager" where
  "selectEach m us =
     foldl (\<lambda>m' (i, unit). m'\<lparr>units := putUnit i (setSelected unit True) (units m')\<rparr>) m us"

definition selectUnitsByHotgroup :: "UnitsManager \<Rightarrow> nat \<Rightarrow> bool \<Rightarrow> UnitsManager" where
  "selectUnitsByHotgroup m h deselectAll =
     (let m1 = (if deselectAll then deselectAllUnits m else m)
      in selectEach m1 (getUnitsByHotgroup m1 h))"

section \<open>Notions used in the statements\<close>

subsection \<open>Calls on a unit object\<close>

text \<open>
  The calls that change a unit object after its construction: \<open>setData\<close>,
  \<open>setSelected\<close>, \<open>updateVisibility\<close> and \<open>setHidden\<close>, and \<open>addDestination\<close> and
  \<open>clearDestinations\<close>, which write \<open>taskData.activePath\<close> (taken here as writing any
  path). \<open>setSelectable\<close> is called by the Weapon constructor only. A call of
  \<open>setData\<close> that raises leaves the object as it was.
\<close>

datatype unit_call =
  CallSetData Env UpdateData
| CallSetSelected bool
| CallUpdateVisibility Env
| CallSetHidden bool
| CallWriteActivePath "(string \<times> number \<times> number) list option"

definition writeActivePath :: "Unit \<Rightarrow> (string \<times> number \<times> number) list option \<Rightarrow> Unit" where
  "writeActivePath u p = u\<lparr>data := (data u)\<lparr>taskData := (taskData (data u))\<lparr>activePath := p\<rparr>\<rparr>\<rparr>"

fun applyCall :: "Unit \<Rightarrow> unit_call \<Rightarrow> Unit" where
  "applyCall u (CallSetData env d) = afterSetData env u d"
| "applyCall u (CallSetSelected b) = setSelected u b"
| "applyCall u (CallUpdateVisibility env) = updateVisibility env u"
| "applyCall u (CallSetHidden b) = setHidden u b"
| "applyCall u (CallWriteActivePath p) = writeActivePath u p"

definition applyCalls :: "Unit \<Rightarrow> unit_call list \<Rightarrow> Unit" where
  "applyCalls u cs = foldl applyCall u cs"

text \<open>
  What holds of every unit object between calls: a selected unit is alive and
  selectable, and a weapon is not selectable.
\<close>

definition selectionInv :: "Unit \<Rightarrow> bool" where
  "selectionInv u \<longleftrightarrow>
     (selected u \<longrightarrow> alive (baseData (data u)) \<and> selectable u) \<and>
     (isWeapon (cls u) \<longrightarrow> \<not> selectable u)"

subsection \<open>Fields of an update and merged updates\<close>

text \<open>
  The names of the fields of the six sub-records, the fields an update contains, and
  the single update that contains the fields of two updates (the second wins where
  both have a field; updates with disjoint field sets have no such field).
\<close>

datatype field =
  F_AI | F_name | F_unitName | F_groupName | F_alive | F_category
| F_latitude | F_longitude | F_altitude | F_heading | F_speed
| F_fuel | F_flags | F_ammo | F_targets | F_hasTask | F_coalition
| F_leaderID
| F_currentState | F_currentTask | F_activePath | F_targetSpeed | F_targetAltitude
| F_isTanker | F_isAWACS | F_TACANOn | F_TACANChannel | F_TACANXY | F_TACANCallsign
| F_radioFrequency | F_radioCallsign | F_radioCallsignNumber | F_radioAMFM
| F_ROE | F_reactionToThreat

definition has :: "'a option \<Rightarrow> field \<Rightarrow> field list" where
  "has x f = (case x of None \<Rightarrow> [] | Some v \<Rightarrow> [f])"

definition baseFields :: "BaseUpdate \<Rightarrow> field list" where
  "baseFields b =
     has (upd_AI b) F_AI @ has (upd_name b) F_name @ has (upd_unitName b) F_unitName @
     has (upd_groupName b) F_groupName @ has (upd_alive b) F_alive @
     has (upd_category b) F_category"

definition flightFields :: "FlightUpdate \<Rightarrow> field list" where
  "flightFields f =
     has (upd_latitude f) F_latitude @ has (upd_longitude f) F_longitude @
     has (upd_altitude f) F_altitude @ has (upd_heading f) F_heading @
     has (upd_speed f) F_speed"

definition missionFields :: "MissionUpdate \<Rightarrow> field list" where
  "missionFields m =
     has (upd_fuel m) F_fuel @ has (upd_flags m) F_flags @ has (upd_ammo m) F_ammo @
     has (upd_targets m) F_targets @ has (upd_hasTask m) F_hasTask @
     has (upd_coalition m) F_coalition"

definition formationFields :: "FormationUpdate \<Rightarrow> field list" where
  "formationFields f = has (upd_leaderID f) F_leaderID"

definition taskFields :: "TaskUpdate \<Rightarrow> field list" where
  "taskFields t =
     has (upd_currentState t) F_currentState @ has (upd_currentTask t) F_currentTask @
     has (upd_activePath t) F_activePath @ has (upd_targetSpeed t) F_targetSpeed @
     has (upd_targetAltitude t) F_targetAltitude @ has (upd_isTanker t) F_isTanker @
     has (upd_isAWACS t) F_isAWACS @ has (upd_TACANOn t) F_TACANOn @
     has (upd_TACANChannel t) F_TACANChannel @ has (upd_TACANXY t) F_TACANXY @
     has (upd_TACANCallsign t) F_TACANCallsign @
     has (upd_radioFrequency t) F_radioFrequency @
     has (upd_radioCallsign t) F_radioCallsign @
     has (upd_radioCallsignNumber t) F_radioCallsignNumber @
     has (upd_radioAMFM t) F_radioAMFM"

definition optionsFields :: "OptionsUpdate \<Rightarrow> field list" where
  "optionsFields p = has (upd_ROE p) F_ROE @ has (upd_reactionToThreat p) F_reactionToThreat"

definition sub :: "('a \<Rightarrow> field list) \<Rightarrow> 'a option \<Rightarrow> field list" where
  "sub fs x = (case x of None \<Rightarrow> [] | Some r \<Rightarrow> fs r)"

definition fieldsOf :: "UpdateData \<Rightarrow> field list" where
  "fieldsOf d =
     sub baseFields (upd_baseData d) @ sub flightFields (upd_flightData d) @
     sub missionFields (upd_missionData d) @ sub formationFields (upd_formationData d) @
     sub taskFields (upd_taskData d) @ sub optionsFields (upd_optionsData d)"

definition disjointFields :: "UpdateData \<Rightarrow> UpdateData \<Rightarrow> bool" where
  "disjointFields a b = (set (fieldsOf a) \<inter> set (fieldsOf b) = {})"

definition pick :: "'a option \<Rightarrow> 'a option \<Rightarrow> 'a option" where
  "pick x y = (case y of None \<Rightarrow> x | Some v \<Rightarrow> Some v)"

definition mergeSub :: "('a \<Rightarrow> 'a \<Rightarrow> 'a) \<Rightarrow> 'a option \<Rightarrow> 'a option \<Rightarrow> 'a option" where
  "mergeSub f x y =
     (case x of None \<Rightarrow> y | Some p \<Rightarrow> (case y of None \<Rightarrow> Some p | Some q \<Rightarrow> Some (f p q)))"

definition joinBase :: "BaseUpdate \<Rightarrow> BaseUpdate \<Rightarrow> BaseUpdate" where
  "joinBase p q =
     \<lparr> upd_AI = pick (upd_AI p) (upd_AI q), upd_name = pick (upd_name p) (upd_name q),
       upd_unitName = pick (upd_unitName p) (upd_unitName q),
       upd_groupName = pick (upd_groupName p) (upd_groupName q),
       upd_alive = pick (upd_alive p) (upd_alive q),
       upd_category = pick (upd_category p) (upd_category q) \<rparr>"

definition joinFlight :: "FlightUpdate \<Rightarrow> FlightUpdate \<Rightarrow> FlightUpdate" where
  "joinFlight p q =
     \<lparr> upd_latitude = pick (upd_latitude p) (upd_latitude q),
       upd_longitude = pick (upd_longitude p) (upd_longitude q),
       upd_altitude = pick (upd_altitude p) (upd_altitude q),
       upd_heading = pick (upd_heading p) (upd_heading q),
       upd_speed = pick (upd_speed p) (upd_speed q) \<rparr>"

definition joinMission :: "MissionUpdate \<Rightarrow> MissionUpdate \<Rightarrow> MissionUpdate" where
  "joinMission p q =
     \<lparr> upd_fuel = pick (upd_fuel p) (upd_fuel q), upd_flags = pick (upd_flags p) (upd_flags q),
       upd_ammo = pick (upd_ammo p) (upd_ammo q),
       upd_targets = pick (upd_targets p) (upd_targets q),
       upd_hasTask = pick (upd_hasTask p) (upd_hasTask q),
       upd_coalition = pick (upd_coalition p) (upd_coalition q) \<rparr>"

definition joinFormation :: "FormationUpdate \<Rightarrow> FormationUpdate \<Rightarrow> FormationUpdate" where
  "joinFormation p q = \<lparr> upd_leaderID = pick (upd_leaderID p) (upd_leaderID q) \<rparr>"

definition joinTask :: "TaskUpdate \<Rightarrow> TaskUpdate \<Rightarrow> TaskUpdate" where
  "joinTask p q =
     \<lparr> upd_currentState = pick (upd_currentState p) (upd_currentState q),
       upd_currentTask = pick (upd_currentTask p) (upd_currentTask q),
       upd_activePath = pick (upd_activePath p) (upd_activePath q),
       upd_targetSpeed = pick (upd_targetSpeed p) (upd_targetSpeed q),
       upd_targetAltitude = pick (upd_targetAltitude p) (upd_targetAltitude q),
       upd_isTanker = pick (upd_isTanker p) (upd_isTanker q),
       upd_isAWACS = pick (upd_isAWACS p) (upd_isAWACS q),
       upd_TACANOn = pick (upd_TACANOn p) (upd_TACANOn q),
       upd_TACANChannel = pick (upd_TACANChannel p) (upd_TACANChannel q),
       upd_TACANXY = pick (upd_TACANXY p) (upd_TACANXY q),
       upd_TACANCallsign = pick (upd_TACANCallsign p) (upd_TACANCallsign q),
       upd_radioFrequency = pick (upd_radioFrequency p) (upd_radioFrequency q),
       upd_radioCallsign = pick (upd_radioCallsign p) (upd_radioCallsign q),
       upd_radioCallsignNumber = pick (upd_radioCallsignNumber p) (upd_radioCallsignNumber q),
       upd_radioAMFM = pick (upd_radioAMFM p) (upd_radioAMFM q) \<rparr>"

definition joinOptions :: "OptionsUpdate \<Rightarrow> OptionsUpdate \<Rightarrow> OptionsUpdate" where
  "joinOptions p q =
     \<lparr> upd_ROE = pick (upd_ROE p) (upd_ROE q),
       upd_reactionToThreat = pick (upd_reactionToThreat p) (upd_reactionToThreat q) \<rparr>"

definition mergeUpdate :: "UpdateData \<Rightarrow> UpdateData \<Rightarrow> UpdateData" where
  "mergeUpdate a b =
     \<lparr> upd_baseData = mergeSub joinBase (upd_baseData a) (upd_baseData b),
       upd_flightData = mergeSub joinFlight (upd_flightData a) (upd_flightData b),
       upd_missionData = mergeSub joinMission (upd_missionData a) (upd_missionData b),
       upd_formationData = mergeSub joinFormation (upd_formationData a) (upd_formationData b),
       upd_taskData = mergeSub joinTask (upd_taskData a) (upd_taskData b),
       upd_optionsData = mergeSub joinOptions (upd_optionsData a) (upd_optionsData b) \<rparr>"

text \<open>
  The update \<open>{}\<close>; a list of updates merged into one; and the updates of a list
  applied one at a time, where a call that raises leaves the unit as it was.
\<close>

definition emptyUpdate :: UpdateData where
  "emptyUpdate = \<lparr> upd_baseData = None, upd_flightData = None, upd_missionData = None,
                   upd_formationData = None, upd_taskData = None, upd_optionsData = None \<rparr>"

definition mergeUpdates :: "UpdateData list \<Rightarrow> UpdateData" where
  "mergeUpdates ds = foldl mergeUpdate emptyUpdate ds"

definition applyUpdates :: "Env \<Rightarrow> Unit \<Rightarrow> UpdateData list \<Rightarrow> Unit" where
  "applyUpdates env u ds = foldl (afterSetData env) u ds"

text \<open>
  The value a unit holds in a field, and the value an update holds for it, if any.
\<close>

datatype fvalue =
  VBool bool
| VString string
| VNumber number
| VFlags "(string \<times> bool) list"
| VAmmo "(string \<times> number) list"
| VTargets "(string \<times> nat list) list"
| VLeader "nat option"
| VPath "(string \<times> number \<times> number) list option"

primrec fieldValue :: "field \<Rightarrow> UnitData \<Rightarrow> fvalue" where
  "fieldValue F_AI x = VBool (AI (baseData x))"
| "fieldValue F_name x = VString (name (baseData x))"
| "fieldValue F_unitName x = VString (unitName (baseData x))"
| "fieldValue F_groupName x = VString (groupName (baseData x))"
| "fieldValue F_alive x = VBool (alive (baseData x))"
| "fieldValue F_category x = VString (category (baseData x))"
| "fieldValue F_latitude x = VNumber (latitude (flightData x))"
| "fieldValue F_longitude x = VNumber (longitude (flightData x))"
| "fieldValue F_altitude x = VNumber (altitude (flightData x))"
| "fieldValue F_heading x = VNumber (heading (flightData x))"
| "fieldValue F_speed x = VNumber (speed (flightData x))"
| "fieldValue F_fuel x = VNumber (fuel (missionData x))"
| "fieldValue F_flags x = VFlags (flags (missionData x))"
| "fieldValue F_ammo x = VAmmo (ammo (missionData x))"
| "fieldValue F_targets x = VTargets (targets (missionData x))"
| "fieldValue F_hasTask x = VBool (hasTask (missionData x))"
| "fieldValue F_coalition x = VString (coalition (missionData x))"
| "fieldValue F_leaderID x = VLeader (leaderID (formationData x))"
| "fieldValue F_currentState x = VString (currentState (taskData x))"
| "fieldValue F_currentTask x = VString (currentTask (taskData x))"
| "fieldValue F_activePath x = VPath (activePath (taskData x))"
| "fieldValue F_targetSpeed x = VNumber (targetSpeed (taskData x))"
| "fieldValue F_targetAltitude x = VNumber (targetAltitude (taskData x))"
| "fieldValue F_isTanker x = VBool (isTanker (taskData x))"
| "fieldValue F_isAWACS x = VBool (isAWACS (taskData x))"
| "fieldValue F_TACANOn x = VBool (TACANOn (taskData x))"
| "fieldValue F_TACANChannel x = VNumber (TACANChannel (taskData x))"
| "fieldValue F_TACANXY x = VString (TACANXY (taskData x))"
| "fieldValue F_TACANCallsign x = VString (TACANCallsign (taskData x))"
| "fieldValue F_radioFrequency x = VNumber (radioFrequency (taskData x))"
| "fieldValue F_radioCallsign x = VNumber (radioCallsign (taskData x))"
| "fieldValue F_radioCallsignNumber x = VNumber (radioCallsignNumber (taskData x))"
| "fieldValue F_radioAMFM x = VString (radioAMFM (taskData x))"
| "fieldValue F_ROE x = VString (ROE (optionsData x))"
| "fieldValue F_reactionToThreat x = VString (reactionToThreat (optionsData x))"

definition held :: "'r option \<Rightarrow> ('r \<Rightarrow> 'a option) \<Rightarrow> ('a \<Rightarrow> fvalue) \<Rightarrow> fvalue option" where
  "held r sel v = (case r of None \<Rightarrow> None | Some s \<Rightarrow> map_option v (sel s))"

primrec updateValue :: "field \<Rightarrow> UpdateData \<Rightarrow> fvalue option" where
  "updateValue F_AI d = held (upd_baseData d) upd_AI VBool"
| "updateValue F_name d = held (upd_baseData d) upd_name VString"
| "updateValue F_unitName d = held (upd_baseData d) upd_unitName VString"
| "updateValue F_groupName d = held (upd_baseData d) upd_groupName VString"
| "updateValue F_alive d = held (upd_baseData d) upd_alive VBool"
| "updateValue F_category d = held (upd_baseData d) upd_category VString"
| "updateValue F_latitude d = held (upd_flightData d) upd_latitude VNumber"
| "updateValue F_longitude d = held (upd_flightData d) upd_longitude VNumber"
| "updateValue F_altitude d = held (upd_flightData d) upd_altitude VNumber"
| "updateValue F_heading d = held (upd_flightData d) upd_heading VNumber"
| "updateValue F_speed d = held (upd_flightData d) upd_speed VNumber"
| "updateValue F_fuel d = held (upd_missionData d) upd_fuel VNumber"
| "updateValue F_flags d = held (upd_missionData d) upd_flags VFlags"
| "updateValue F_ammo d = held (upd_missionData d) upd_ammo VAmmo"
| "updateValue F_targets d = held (upd_missionData d) upd_targets VTargets"
| "updateValue F_hasTask d = held (upd_missionData d) upd_hasTask VBool"
| "updateValue F_coalition d = held (upd_missionData d) upd_coalition VString"
| "updateValue F_leaderID d = held (upd_formationData d) upd_leaderID VLeader"
| "updateValue F_currentState d = held (upd_taskData d) upd_currentState VString"
| "updateValue F_currentTask d = held (upd_taskData d) upd_currentTask VString"
| "updateValue F_activePath d = held (upd_taskData d) upd_activePath VPath"
| "updateValue F_targetSpeed d = held (upd_taskData d) upd_targetSpeed VNumber"
| "updateValue F_targetAltitude d = held (upd_taskData d) upd_targetAltitude VNumber"
| "updateValue F_isTanker d = held (upd_taskData d) upd_isTanker VBool"
| "updateValue F_isAWACS d = held (upd_taskData d) upd_isAWACS VBool"
| "updateValue F_TACANOn d = held (upd_taskData d) upd_TACANOn VBool"
| "updateValue F_TACANChannel d = held (upd_taskData d) upd_TACANChannel VNumber"
| "updateValue F_TACANXY d = held (upd_taskData d) upd_TACANXY VString"
| "updateValue F_TACANCallsign d = held (upd_taskData d) upd_TACANCallsign VString"
| "updateValue F_radioFrequency d = held (upd_taskData d) upd_radioFrequency VNumber"
| "updateValue F_radioCallsign d = held (upd_taskData d) upd_radioCallsign VNumber"
| "updateValue F_radioCallsignNumber d = held (upd_taskData d) upd_radioCallsignNumber VNumber"
| "updateValue F_radioAMFM d = held (upd_taskData d) upd_radioAMFM VString"
| "updateValue F_ROE d = held (upd_optionsData d) upd_ROE VString"
| "updateValue F_reactionToThreat d = held (upd_optionsData d) upd_reactionToThreat VString"

text \<open>
  The update is one that \<open>setData\<close> applies: it has the two sub-records that are
  read first.
\<close>

definition applicable :: "UpdateData \<Rightarrow> bool" where
  "applicable d = (upd_flightData d \<noteq> None \<and> upd_baseData d \<noteq> None)"

subsection \<open>Group membership and detection\<close>

text \<open>
  Unit \<open>i\<close> is a member of the Group object named \<open>n\<close>.
\<close>

definition isMember :: "UnitsManager \<Rightarrow> string \<Rightarrow> nat \<Rightarrow> bool" where
  "isMember m n i = (case map_of (groups m) n of None \<Rightarrow> False | Some g \<Rightarrow> i \<in> set (members g))"

text \<open>
  The unit awaits a group: it has reported a group name and has no group. Its group
  name is inherited when it names a property that \<open>#groups\<close> has from
  \<open>Object.prototype\<close>.
\<close>

definition awaitsGroup :: "Unit \<Rightarrow> bool" where
  "awaitsGroup u = (getGroupName u \<noteq> '''' \<and> getGroup u = None)"

definition inheritedName :: "Unit \<Rightarrow> bool" where
  "inheritedName u = (getGroupName u \<in> set objectPrototypeKeys)"

text \<open>
  The detection methods by which unit \<open>i\<close> is seen, in the words of the spec: the
  \<open>detectionMethod\<close> of every contact with target \<open>i\<close>, taken from the contact lists of
  the units that are alive and belong to the commanded coalition.
\<close>

definition detectionsOf :: "App \<Rightarrow> UnitsManager \<Rightarrow> nat \<Rightarrow> nat list" where
  "detectionsOf app m i =
     concat (map (\<lambda>(j, v).
        if getAlive v \<and> belongsToCommandedCoalition app v
        then map detectionMethod (filter (\<lambda>c. contactID c = i) (getContacts v)) else [])
       (units m))"

text \<open>
  The dictionary while it is filled: its keys stay, a list without duplicates stays
  so, and the list of key \<open>k\<close> gains the methods \<open>new k\<close>.
\<close>

definition tableExtends :: "detection_table \<Rightarrow> detection_table \<Rightarrow> (nat \<Rightarrow> nat set) \<Rightarrow> bool" where
  "tableExtends t t' new \<longleftrightarrow>
     (\<forall>k. (case t k of
             None \<Rightarrow> t' k = None
           | Some ms \<Rightarrow> (\<exists>ms'. t' k = Some ms' \<and> set ms' = set ms \<union> new k \<and>
                           (distinct ms \<longrightarrow> distinct ms'))))"

section \<open>Example inputs\<close>

text \<open>
  Concrete inputs on which the definitions above are run. \<open>exampleSetData\<close> is one
  possible \<open>setData(dataExtractor)\<close>: it reads a tag byte and one value, tag 2 for
  \<open>alive\<close> (one byte) and tag 3 for \<open>groupName\<close> (a string); the tag numbers are those
  of this example only.
\<close>

definition exampleSetData :: "Unit \<Rightarrow> byte list \<Rightarrow> error + (Unit \<times> nat \<times> bool)" where
  "exampleSetData u bs =
     (case bs of
        [] \<Rightarrow> Inl BufferUnderrun
      | t # rest \<Rightarrow>
         if t = 2 then
           (case rest of
              [] \<Rightarrow> Inl BufferUnderrun
            | b # _ \<Rightarrow>
               Inr (u\<lparr>data := (data u)\<lparr>baseData := (baseData (data u))\<lparr>alive := (b \<noteq> 0)\<rparr>\<rparr>\<rparr>,
                    2, False))
         else if t = 3 then
           (case extractString \<lparr> buffer = rest, seekPosition = 0 \<rparr> of
              Inl e \<Rightarrow> Inl e
            | Inr (s, d) \<Rightarrow>
               Inr (u\<lparr>data := (data u)\<lparr>baseData := (baseData (data u))\<lparr>groupName := s\<rparr>\<rparr>\<rparr>,
                    1 + seekPosition d, False))
         else Inl TypeError)"

definition exampleDecoder :: Decoder where
  "exampleDecoder = \<lparr> categoryIndex = 1, unitSetData = exampleSetData \<rparr>"

definition exampleApp :: App where
  "exampleApp = \<lparr> gameMaster = False, commandedCoalition = ''blue'', weaponIDs = [] \<rparr>"

definition gameMasterApp :: App where
  "gameMasterApp = exampleApp\<lparr>gameMaster := True\<rparr>"

definition exampleEnv :: Env where
  "exampleEnv = \<lparr> bodyAttributes = [''data-hide-red'', ''data-hide-navyunit''],
                  groundUnitRole = (\<lambda>n. None) \<rparr>"

definition emptyManager :: UnitsManager where
  "emptyManager = \<lparr> units = [], groups = [], requestDetectionUpdate = False \<rparr>"

subsection \<open>Units and updates\<close>

text \<open>
  A unit put into a coalition, a hotgroup, given a fuel value, or killed; an aircraft
  with the given ID that has reported the given group name and has no group yet.
\<close>

definition ofCoalition :: "Unit \<Rightarrow> string \<Rightarrow> Unit" where
  "ofCoalition u c = u\<lparr>data := (data u)\<lparr>missionData := (missionData (data u))\<lparr>coalition := c\<rparr>\<rparr>\<rparr>"

definition inHotgroup :: "Unit \<Rightarrow> nat \<Rightarrow> Unit" where
  "inHotgroup u h = u\<lparr>hotgroup := Some h\<rparr>"

definition withFuel :: "Unit \<Rightarrow> number \<Rightarrow> Unit" where
  "withFuel u v = u\<lparr>data := (data u)\<lparr>missionData := (missionData (data u))\<lparr>fuel := v\<rparr>\<rparr>\<rparr>"

definition killed :: "Unit \<Rightarrow> Unit" where
  "killed u = u\<lparr>data := (data u)\<lparr>baseData := (baseData (data u))\<lparr>alive := False\<rparr>\<rparr>\<rparr>"

definition reporting :: "nat \<Rightarrow> string \<Rightarrow> Unit" where
  "reporting i n = (constructUnit Aircraft i)
     \<lparr>data := initialData\<lparr>baseData := (baseData initialData)\<lparr>groupName := n\<rparr>\<rparr>\<rparr>"

definition unitG1 :: Unit where
  "unitG1 = (constructUnit Aircraft 1)
     \<lparr>data := initialData\<lparr>baseData := (baseData initialData)\<lparr>groupName := ''G1''\<rparr>\<rparr>\<rparr>"

definition unit2G1 :: Unit where
  "unit2G1 = (constructUnit Aircraft 2)
     \<lparr>data := initialData\<lparr>baseData := (baseData initialData)\<lparr>groupName := ''G1''\<rparr>\<rparr>\<rparr>"

text \<open>
  Sub-records of an update with no key; the updates \<open>{baseData: {}, flightData: {}}\<close>
  and \<open>{baseData: {alive: false}, flightData: {}}\<close>.
\<close>

definition noBase :: BaseUpdate where
  "noBase = \<lparr> upd_AI = None, upd_name = None, upd_unitName = None, upd_groupName = None,
              upd_alive = None, upd_category = None \<rparr>"

definition noFlight :: FlightUpdate where
  "noFlight = \<lparr> upd_latitude = None, upd_longitude = None, upd_altitude = None,
                upd_heading = None, upd_speed = None \<rparr>"

definition noMission :: MissionUpdate where
  "noMission = \<lparr> upd_fuel = None, upd_flags = None, upd_ammo = None, upd_targets = None,
                 upd_hasTask = None, upd_coalition = None \<rparr>"

definition noTask :: TaskUpdate where
  "noTask = \<lparr> upd_currentState = None, upd_currentTask = None, upd_activePath = None,
              upd_targetSpeed = None, upd_targetAltitude = None, upd_isTanker = None,
              upd_isAWACS = None, upd_TACANOn = None, upd_TACANChannel = None,
              upd_TACANXY = None, upd_TACANCallsign = None, upd_radioFrequency = None,
              upd_radioCallsign = None, upd_radioCallsignNumber = None,
              upd_radioAMFM = None \<rparr>"

definition bareUpdate :: UpdateData where
  "bareUpdate = emptyUpdate\<lparr>upd_baseData := Some noBase, upd_flightData := Some noFlight\<rparr>"

definition deathUpdate :: UpdateData where
  "deathUpdate = bareUpdate\<lparr>upd_baseData := Some (noBase\<lparr>upd_alive := Some False\<rparr>)\<rparr>"

text \<open>
  The updates \<open>{missionData: {fuel: 10}}\<close>, \<open>{baseData: {name: "F-5E"}}\<close> and
  \<open>{flightData: {heading: 1}}\<close>, and the update with a fuel value and the two empty
  sub-records that \<open>setData\<close> reads.
\<close>

definition fuelOnlyUpdate :: UpdateData where
  "fuelOnlyUpdate = emptyUpdate\<lparr>upd_missionData := Some (noMission\<lparr>upd_fuel := Some 10\<rparr>)\<rparr>"

definition nameOnlyUpdate :: UpdateData where
  "nameOnlyUpdate = emptyUpdate\<lparr>upd_baseData := Some (noBase\<lparr>upd_name := Some ''F-5E''\<rparr>)\<rparr>"

definition headingOnlyUpdate :: UpdateData where
  "headingOnlyUpdate = emptyUpdate\<lparr>upd_flightData := Some (noFlight\<lparr>upd_heading := Some 1\<rparr>)\<rparr>"

definition fuelUpdate :: "number \<Rightarrow> UpdateData" where
  "fuelUpdate v = bareUpdate\<lparr>upd_missionData := Some (noMission\<lparr>upd_fuel := Some v\<rparr>)\<rparr>"

subsection \<open>Managers\<close>

text \<open>
  Three aircraft: 1 alive in hotgroup 1, 2 dead in hotgroup 1, 3 alive in hotgroup 2.
\<close>

definition hotgroupManager :: UnitsManager where
  "hotgroupManager =
     \<lparr> units = [(1, inHotgroup (blankUnit Aircraft 1) 1),
                (2, killed (inHotgroup (blankUnit Aircraft 2) 1)),
                (3, inHotgroup (blankUnit Aircraft 3) 2)],
       groups = [], requestDetectionUpdate = False \<rparr>"

text \<open>
  Two aircraft that have both reported the group name constructor.
\<close>

definition constructorManager :: UnitsManager where
  "constructorManager =
     emptyManager\<lparr>units := [(1, reporting 1 ''constructor''), (3, reporting 3 ''constructor'')]\<rparr>"

text \<open>
  An aircraft that has reported the group name constructor, and one after it in the
  table that has reported the group name G1.
\<close>

definition mixedManager :: UnitsManager where
  "mixedManager = emptyManager\<lparr>units := [(1, reporting 1 ''constructor''), (2, unit2G1)]\<rparr>"

text \<open>
  A blue aircraft 1 that reports radar (1) contact with unit 2 twice, visual (2)
  contact with unit 2 and radar contact with a unit 7 that is not in the table; a red
  aircraft 2; the detection update is requested.
\<close>

definition contactManager :: UnitsManager where
  "contactManager =
     \<lparr> units = [(1, (ofCoalition (blankUnit Aircraft 1) ''blue'')
                     \<lparr>contacts := [\<lparr>contactID = 2, detectionMethod = 1\<rparr>,
                                   \<lparr>contactID = 7, detectionMethod = 1\<rparr>,
                                   \<lparr>contactID = 2, detectionMethod = 2\<rparr>,
                                   \<lparr>contactID = 2, detectionMethod = 1\<rparr>]\<rparr>),
                (2, ofCoalition (blankUnit Aircraft 2) ''red'')],
       groups = [], requestDetectionUpdate = True \<rparr>"

subsection \<open>Update buffers\<close>

text \<open>
  Time 100 and nothing else; time 100 and ID 2 with tag 3.
\<close>

definition timeOnlyBuffer :: "byte list" where
  "timeOnlyBuffer = [100, 0, 0, 0, 0, 0, 0, 0]"

definition strayBuffer :: "byte list" where
  "strayBuffer = [100, 0, 0, 0, 0, 0, 0, 0,  2, 0, 0, 0,  3]"

text \<open>
  Time 100; ID 1 with the category tag and the string Aircraft, then tag 3 with the
  string G1; ID 2 with tag 3, which is not the category tag.
\<close>

definition abortBuffer :: "byte list" where
  "abortBuffer =
     [100, 0, 0, 0, 0, 0, 0, 0,
      1, 0, 0, 0,  1,  8, 0, 65, 105, 114, 99, 114, 97, 102, 116,  3,  2, 0, 71, 49,
      2, 0, 0, 0,  3,  2, 0, 71, 49]"

text \<open>
  Time 100; ID 1 with the category tag and the string Tank, which names no class;
  ID 2 with the category tag and the string Aircraft, then tag 3 with the string G1.
\<close>

definition unknownCategoryBuffer :: "byte list" where
  "unknownCategoryBuffer =
     [100, 0, 0, 0, 0, 0, 0, 0,
      1, 0, 0, 0,  1,  4, 0, 84, 97, 110, 107,
      2, 0, 0, 0,  1,  8, 0, 65, 105, 114, 99, 114, 97, 102, 116,  3,  2, 0, 71, 49]"

text \<open>
  Time 100, then for ID 1 and for ID 3 the category tag with the string Aircraft and
  tag 3 with the string constructor.
\<close>

definition constructorBuffer :: "byte list" where
  "constructorBuffer =
     [100, 0, 0, 0, 0, 0, 0, 0,
      1, 0, 0, 0,  1,  8, 0, 65, 105, 114, 99, 114, 97, 102, 116,
                   3, 11, 0, 99, 111, 110, 115, 116, 114, 117, 99, 116, 111, 114,
      3, 0, 0, 0,  1,  8, 0, 65, 105, 114, 99, 114, 97, 102, 116,
                   3, 11, 0, 99, 111, 110, 115, 116, 114, 117, 99, 116, 111, 114]"

text \<open>
  Time 100; ID 1 with the category tag and the string Tank, followed by tag 3 with
  the string G1 as for a unit that exists; then ID 2 with the category tag and the
  string Aircraft and tag 3 with the string G1.
\<close>

definition tankFieldBuffer :: "byte list" where
  "tankFieldBuffer =
     [100, 0, 0, 0, 0, 0, 0, 0,
      1, 0, 0, 0,  1,  4, 0, 84, 97, 110, 107,  3,  2, 0, 71, 49,
      2, 0, 0, 0,  1,  8, 0, 65, 105, 114, 99, 114, 97, 102, 116,  3,  2, 0, 71, 49]"

section \<open>Facts about the cursor and termination of the decode loop\<close>

lemma extractBytes_Inr:
  "extractBytes n d = Inr (bs, d') \<Longrightarrow>
     buffer d' = buffer d \<and> seekPosition d' = seekPosition d + n \<and>
     seekPosition d' \<le> length (buffer d)"
  by (auto simp: extractBytes_def split: if_splits)

lemma extractUInt_Inr:
  "extractUInt n d = Inr (v, d') \<Longrightarrow>
     buffer d' = buffer d \<and> seekPosition d' = seekPosition d + n \<and>
     seekPosition d' \<le> length (buffer d)"
  by (auto simp: extractUInt_def split: sum.splits dest: extractBytes_Inr)

lemma extractString_Inr:
  "extractString d = Inr (s, d') \<Longrightarrow>
     buffer d' = buffer d \<and> seekPosition d \<le> seekPosition d' \<and>
     seekPosition d' \<le> length (buffer d)"
  by (fastforce simp: extractString_def extractUInt16_def split: sum.splits
        dest: extractBytes_Inr extractUInt_Inr)

lemma callSetData_Continue:
  "callSetData dec m i d = Continue m' d' \<Longrightarrow> seekPosition d \<le> length (buffer d) \<Longrightarrow>
     buffer d' = buffer d \<and> seekPosition d \<le> seekPosition d' \<and>
     seekPosition d' \<le> length (buffer d)"
  by (auto simp: callSetData_def split: option.splits sum.splits if_splits)

lemma decodeEntity_Continue:
  assumes "decodeEntity dec m d = Continue m' d'"
  shows "buffer d' = buffer d \<and> seekPosition d < seekPosition d' \<and>
         seekPosition d' \<le> length (buffer d)"
proof -
  from assms obtain i d1 where d1: "extractUInt32 d = Inr (i, d1)"
    by (auto simp: decodeEntity_def split: sum.splits)
  then have a: "buffer d1 = buffer d" "seekPosition d1 = seekPosition d + 4"
    "seekPosition d1 \<le> length (buffer d)"
    using extractUInt_Inr [of 4 d i d1] by (simp_all add: extractUInt32_def)
  show ?thesis
  proof (cases "hasUnit m i")
    case True
    with assms d1 have "callSetData dec m i d1 = Continue m' d'"
      by (simp add: decodeEntity_def)
    from callSetData_Continue [OF this] a show ?thesis by simp
  next
    case False
    with assms d1 obtain t d2 c d3 where
      d2: "extractUInt8 d1 = Inr (t, d2)" and d3: "extractString d2 = Inr (c, d3)"
      and cs: "callSetData dec (addUnit m i c) i d3 = Continue m' d'"
      by (auto simp: decodeEntity_def split: sum.splits if_splits)
    from d2 have b: "buffer d2 = buffer d1" "seekPosition d2 = seekPosition d1 + 1"
      using extractUInt_Inr [of 1 d1 t d2] by (simp_all add: extractUInt8_def)
    from extractString_Inr [OF d3] have c: "buffer d3 = buffer d2"
      "seekPosition d2 \<le> seekPosition d3" "seekPosition d3 \<le> length (buffer d2)"
      by simp_all
    from callSetData_Continue [OF cs] a b c show ?thesis by simp
  qed
qed

termination decodeLoop
proof (relation "measure (\<lambda>(dec, m, d). byteLength d - getSeekPosition d)")
  show "wf (measure (\<lambda>(dec, m, d). byteLength d - getSeekPosition d))"
    by simp
next
  fix dec m d m' d'
  assume "getSeekPosition d < byteLength d" and "decodeEntity dec m d = Continue m' d'"
  with decodeEntity_Continue [of dec m d m' d']
  have "buffer d' = buffer d" "seekPosition d < seekPosition d'"
    "seekPosition d' \<le> length (buffer d)"
    by simp_all
  then have "byteLength d' = byteLength d" "getSeekPosition d < getSeekPosition d'"
    "getSeekPosition d' \<le> byteLength d"
    by (simp_all add: byteLength_def)
  then have "byteLength d' - getSeekPosition d' < byteLength d - getSeekPosition d"
    by linarith
  then show "((dec, m', d'), (dec, m, d)) \<in> measure (\<lambda>(dec, m, d). byteLength d - getSeekPosition d)"
    by simp
qed

declare decodeLoop.simps [simp del]

lemmas cursor_defs =
  extractUInt64_def extractUInt32_def extractUInt16_def extractUInt8_def extractUInt_def
  extractBytes_def extractString_def newDataExtractor_def byteLength_def remainingBytes_def
  char_of_def bit_Suc_0_iff

lemmas loop_defs =
  decodeEntity_def callSetData_def hasUnit_def getUnitByID_def addUnit_def getConstructor_def

lemma afterPasses_decodeLoop:
  "afterPasses dec n m d = Some (m', d') \<Longrightarrow> decodeLoop dec m d = decodeLoop dec m' d'"
proof (induction n arbitrary: m d)
  case 0
  then show ?case by simp
next
  case (Suc n)
  then show ?case
    by (subst decodeLoop.simps) (auto split: if_splits step_result.splits)
qed

section \<open>The decode loop: abort and unknown categories\<close>

lemma decodeEntity_Return:
  assumes "extractUInt32 d = Inr (i, d1)" and "\<not> hasUnit m i"
    and "extractUInt8 d1 = Inr (datumIndex, d2)" and "datumIndex \<noteq> categoryIndex dec"
  shows "decodeEntity dec m d = Return m"
  using assms by (simp add: decodeEntity_def)

text \<open>
  Claim C1. Let \<open>update\<close> have read the time stamp and made \<open>n\<close> passes through
  the loop body, so that the loop stands at the manager state \<open>m'\<close> and the cursor
  \<open>d\<close> with bytes left. If the ID read there is not in the units table and the tag
  byte after it is not the category tag, \<open>update\<close> returns at once with the time stamp
  read at the start; the manager is left as it was before that ID was read, so the
  table holds what the earlier passes made of it and no unit for the new ID.
\<close>

theorem update_aborts_without_category:
  assumes "extractUInt64 (newDataExtractor buf) = Inr (updateTime, d0)"
    and "afterPasses dec n m d0 = Some (m', d)"
    and "getSeekPosition d < byteLength d"
    and "extractUInt32 d = Inr (i, d1)"
    and "\<not> hasUnit m' i"
    and "extractUInt8 d1 = Inr (datumIndex, d2)"
    and "datumIndex \<noteq> categoryIndex dec"
  shows "update dec app m buf = (Returned updateTime, m') \<and> getUnitByID m' i = None"
proof -
  have "decodeLoop dec m d0 = decodeLoop dec m' d"
    using assms(2) by (rule afterPasses_decodeLoop)
  also have "\<dots> = Aborted m'"
    using assms(3) decodeEntity_Return [OF assms(4-7)]
    by (subst decodeLoop.simps) simp
  finally have "decodeLoop dec m d0 = Aborted m'" .
  with assms(1) have "update dec app m buf = (Returned updateTime, m')"
    by (simp add: update_def)
  moreover from assms(5) have "getUnitByID m' i = None"
    by (simp add: hasUnit_def getUnitByID_def)
  ultimately show ?thesis by simp
qed

lemma abortBuffer_first_pass:
  "afterPasses exampleDecoder 1 emptyManager \<lparr>buffer = abortBuffer, seekPosition = 8\<rparr>
     = Some (emptyManager\<lparr>units := [(1, unitG1)]\<rparr>, \<lparr>buffer = abortBuffer, seekPosition = 28\<rparr>)"
  by (simp add: cursor_defs loop_defs abortBuffer_def exampleDecoder_def exampleSetData_def
      emptyManager_def unitG1_def constructUnit_def isWeapon_def blankUnit_def)

theorem update_aborts_without_category_witness:
  "update exampleDecoder exampleApp emptyManager abortBuffer
     = (Returned 100, emptyManager\<lparr>units := [(1, unitG1)]\<rparr>) \<and>
   getUnitByID (emptyManager\<lparr>units := [(1, unitG1)]\<rparr>) 2 = None"
proof (rule update_aborts_without_category [where n = 1 and datumIndex = 3])
  show "extractUInt64 (newDataExtractor abortBuffer)
          = Inr (100, \<lparr>buffer = abortBuffer, seekPosition = 8\<rparr>)"
    by (simp add: cursor_defs abortBuffer_def)
  show "afterPasses exampleDecoder 1 emptyManager \<lparr>buffer = abortBuffer, seekPosition = 8\<rparr>
     = Some (emptyManager\<lparr>units := [(1, unitG1)]\<rparr>, \<lparr>buffer = abortBuffer, seekPosition = 28\<rparr>)"
    by (rule abortBuffer_first_pass)
  show "getSeekPosition \<lparr>buffer = abortBuffer, seekPosition = 28\<rparr>
          < byteLength \<lparr>buffer = abortBuffer, seekPosition = 28\<rparr>"
    by (simp add: cursor_defs abortBuffer_def)
  show "extractUInt32 \<lparr>buffer = abortBuffer, seekPosition = 28\<rparr>
          = Inr (2, \<lparr>buffer = abortBuffer, seekPosition = 32\<rparr>)"
    by (simp add: cursor_defs abortBuffer_def)
  show "\<not> hasUnit (emptyManager\<lparr>units := [(1, unitG1)]\<rparr>) 2"
    by (simp add: hasUnit_def emptyManager_def)
  show "extractUInt8 \<lparr>buffer = abortBuffer, seekPosition = 32\<rparr>
          = Inr (3, \<lparr>buffer = abortBuffer, seekPosition = 33\<rparr>)"
    by (simp add: cursor_defs abortBuffer_def)
  show "3 \<noteq> categoryIndex exampleDecoder"
    by (simp add: exampleDecoder_def)
qed

lemma addUnit_unknown: "getConstructor cat = None \<Longrightarrow> addUnit m i cat = m"
  by (simp add: addUnit_def)

lemma addUnit_known:
  "getConstructor cat = Some c \<Longrightarrow>
     addUnit m i cat = m\<lparr>units := putUnit i (constructUnit c i) (units m)\<rparr>"
  by (auto simp: addUnit_def getConstructor_def split: if_splits)

lemma callSetData_no_unit: "\<not> hasUnit m i \<Longrightarrow> callSetData dec m i d = Continue m d"
  by (simp add: callSetData_def hasUnit_def getUnitByID_def)

lemma putUnit_twice: "putUnit i u (putUnit i v us) = putUnit i u us"
  by (induction us) auto

lemma map_of_putUnit_same: "map_of (putUnit i u us) i = Some u"
  by (induction us) auto

lemma afterPasses_Suc:
  "afterPasses dec n m d = Some (m', d') \<Longrightarrow> getSeekPosition d' < byteLength d' \<Longrightarrow>
     decodeEntity dec m' d' = Continue m'' d'' \<Longrightarrow>
     afterPasses dec (Suc n) m d = Some (m'', d'')"
proof (induction n arbitrary: m d)
  case 0
  then show ?case by simp
next
  case (Suc n)
  from Suc.prems(1) obtain ma da where
    first: "getSeekPosition d < byteLength d" "decodeEntity dec m d = Continue ma da"
    and rest: "afterPasses dec n ma da = Some (m', d')"
    by (auto split: if_splits step_result.splits)
  from Suc.IH [OF rest Suc.prems(2,3)] first show ?case by simp
qed

lemma decodeEntity_unknown_category:
  assumes "extractUInt32 d = Inr (i, d1)" and "\<not> hasUnit m i"
    and "extractUInt8 d1 = Inr (categoryIndex dec, d2)"
    and "extractString d2 = Inr (cat, d3)" and "getConstructor cat = None"
  shows "decodeEntity dec m d = Continue m d3"
  using assms by (simp add: decodeEntity_def addUnit_unknown callSetData_no_unit)

lemma decodeEntity_known_category:
  assumes "extractUInt32 d = Inr (i, d1)" and "\<not> hasUnit m i"
    and "extractUInt8 d1 = Inr (categoryIndex dec, d2)"
    and "extractString d2 = Inr (cat, d3)" and "getConstructor cat = Some c"
    and "unitSetData dec (constructUnit c i) (remainingBytes d3) = Inr (u', k, ev)"
    and "seekPosition d3 + k \<le> length (buffer d3)"
  shows "decodeEntity dec m d
           = Continue (m\<lparr>units := putUnit i u' (units m),
                         requestDetectionUpdate := (requestDetectionUpdate m \<or> ev)\<rparr>)
                      (d3\<lparr>seekPosition := seekPosition d3 + k\<rparr>)"
  using assms
  by (simp add: decodeEntity_def addUnit_known callSetData_def getUnitByID_def
      map_of_putUnit_same putUnit_twice)

text \<open>
  Claim C8 does not hold as stated. In \<open>tankFieldBuffer\<close> the unit of unknown
  category carries a field after its category, and the record of a new aircraft 2
  follows. Nothing delimits the data of unit 1, so after the category string the loop
  reads the bytes of its field as the next ID, finds a tag that is not the category
  tag, and \<open>update\<close> returns with an empty table: the record of unit 2, which the loop
  decodes when it starts there, is never reached.
\<close>

theorem unknown_category_derails_decoding:
  "update exampleDecoder exampleApp emptyManager tankFieldBuffer = (Returned 100, emptyManager) \<and>
   decodeLoop exampleDecoder emptyManager \<lparr>buffer = tankFieldBuffer, seekPosition = 24\<rparr>
     = Finished (emptyManager\<lparr>units := [(2, unit2G1)]\<rparr>)"
proof -
  have t: "extractUInt64 (newDataExtractor tankFieldBuffer)
              = Inr (100, \<lparr>buffer = tankFieldBuffer, seekPosition = 8\<rparr>)"
    by (simp add: cursor_defs tankFieldBuffer_def)
  have l: "decodeLoop exampleDecoder emptyManager \<lparr>buffer = tankFieldBuffer, seekPosition = 8\<rparr>
             = Aborted emptyManager"
    apply (subst decodeLoop.simps, simp add: cursor_defs loop_defs exampleDecoder_def
        emptyManager_def tankFieldBuffer_def)
    apply (subst decodeLoop.simps, simp add: cursor_defs loop_defs exampleDecoder_def
        emptyManager_def tankFieldBuffer_def)
    done
  have r: "decodeLoop exampleDecoder emptyManager \<lparr>buffer = tankFieldBuffer, seekPosition = 24\<rparr>
             = Finished (emptyManager\<lparr>units := [(2, unit2G1)]\<rparr>)"
    apply (subst decodeLoop.simps, simp add: cursor_defs loop_defs exampleDecoder_def
        exampleSetData_def emptyManager_def tankFieldBuffer_def)
    apply (subst decodeLoop.simps, simp add: cursor_defs loop_defs exampleDecoder_def
        exampleSetData_def emptyManager_def tankFieldBuffer_def unit2G1_def
        constructUnit_def isWeapon_def blankUnit_def)
    done
  from t l r show ?thesis by (simp add: update_def)
qed

text \<open>
  Claim C8, amended. Let \<open>update\<close> have read the time stamp and made \<open>n\<close> passes, and
  let the loop read next an ID that is not in the table, the category tag, and a
  string for which \<open>getConstructor\<close> has no class. Then that pass creates no unit and
  applies no field, and the loop stands on the first byte after the category string:
  nothing is skipped, and \<open>update\<close> ends as the loop does from there. An entity record
  that starts at that byte is decoded as usual: a new ID with a known category gets
  its unit and the unit's \<open>setData\<close> is called. Bytes of further fields of the dropped
  entity that lie there are read as the next ID, and when that ID is unknown and the
  byte after it is not the category tag, \<open>update\<close> returns at once with the table as
  it was, so the entities behind those bytes are not decoded.
\<close>

theorem unknown_category_skips_nothing:
  assumes "extractUInt64 (newDataExtractor buf) = Inr (updateTime, d0)"
    and "afterPasses dec n m d0 = Some (m', d)"
    and "getSeekPosition d < byteLength d"
    and "extractUInt32 d = Inr (i, d1)"
    and "\<not> hasUnit m' i"
    and "extractUInt8 d1 = Inr (categoryIndex dec, d2)"
    and "extractString d2 = Inr (cat, d3)"
    and "getConstructor cat = None"
  shows "afterPasses dec (Suc n) m d0 = Some (m', d3) \<and>
         update dec app m buf
           = (case decodeLoop dec m' d3 of
                Aborted m1 \<Rightarrow> (Returned updateTime, m1)
              | Raised e m1 \<Rightarrow> (Threw e, m1)
              | Finished m1 \<Rightarrow> afterLoop app updateTime m1) \<and>
         (\<forall>j e1 e2 cat2 e3 c u' k ev.
            getSeekPosition d3 < byteLength d3 \<and> extractUInt32 d3 = Inr (j, e1) \<and>
            \<not> hasUnit m' j \<and> extractUInt8 e1 = Inr (categoryIndex dec, e2) \<and>
            extractString e2 = Inr (cat2, e3) \<and> getConstructor cat2 = Some c \<and>
            unitSetData dec (constructUnit c j) (remainingBytes e3) = Inr (u', k, ev) \<and>
            seekPosition e3 + k \<le> length (buffer e3) \<longrightarrow>
            afterPasses dec (Suc (Suc n)) m d0
              = Some (m'\<lparr>units := putUnit j u' (units m'),
                         requestDetectionUpdate := (requestDetectionUpdate m' \<or> ev)\<rparr>,
                      e3\<lparr>seekPosition := seekPosition e3 + k\<rparr>)) \<and>
         (\<forall>j e1 t e2.
            getSeekPosition d3 < byteLength d3 \<and> extractUInt32 d3 = Inr (j, e1) \<and>
            \<not> hasUnit m' j \<and> extractUInt8 e1 = Inr (t, e2) \<and> t \<noteq> categoryIndex dec \<longrightarrow>
            update dec app m buf = (Returned updateTime, m'))"
proof -
  have step: "decodeEntity dec m' d = Continue m' d3"
    using assms(4-8) by (rule decodeEntity_unknown_category)
  have one: "afterPasses dec (Suc n) m d0 = Some (m', d3)"
    using assms(2,3) step by (rule afterPasses_Suc)
  have loop: "decodeLoop dec m d0 = decodeLoop dec m' d3"
    using one by (rule afterPasses_decodeLoop)
  have upd: "update dec app m buf
           = (case decodeLoop dec m' d3 of
                Aborted m1 \<Rightarrow> (Returned updateTime, m1)
              | Raised e m1 \<Rightarrow> (Threw e, m1)
              | Finished m1 \<Rightarrow> afterLoop app updateTime m1)"
    using assms(1) loop by (simp add: update_def)
  have known: "afterPasses dec (Suc (Suc n)) m d0
              = Some (m'\<lparr>units := putUnit j u' (units m'),
                         requestDetectionUpdate := (requestDetectionUpdate m' \<or> ev)\<rparr>,
                      e3\<lparr>seekPosition := seekPosition e3 + k\<rparr>)"
    if "getSeekPosition d3 < byteLength d3" "extractUInt32 d3 = Inr (j, e1)"
      "\<not> hasUnit m' j" "extractUInt8 e1 = Inr (categoryIndex dec, e2)"
      "extractString e2 = Inr (cat2, e3)" "getConstructor cat2 = Some c"
      "unitSetData dec (constructUnit c j) (remainingBytes e3) = Inr (u', k, ev)"
      "seekPosition e3 + k \<le> length (buffer e3)"
    for j e1 e2 cat2 e3 c u' k ev
    using one that(1) decodeEntity_known_category [OF that(2-8)]
    by (rule afterPasses_Suc)
  have stray: "update dec app m buf = (Returned updateTime, m')"
    if "getSeekPosition d3 < byteLength d3" "extractUInt32 d3 = Inr (j, e1)"
      "\<not> hasUnit m' j" "extractUInt8 e1 = Inr (t, e2)" "t \<noteq> categoryIndex dec"
    for j e1 t e2
  proof -
    have "decodeLoop dec m' d3 = Aborted m'"
      using that(1) decodeEntity_Return [OF that(2-5)]
      by (subst decodeLoop.simps) simp
    with upd show ?thesis by simp
  qed
  from one upd known stray show ?thesis by blast
qed

theorem unknown_category_skips_nothing_witness:
  "afterPasses exampleDecoder 1 emptyManager \<lparr>buffer = unknownCategoryBuffer, seekPosition = 8\<rparr>
     = Some (emptyManager, \<lparr>buffer = unknownCategoryBuffer, seekPosition = 19\<rparr>) \<and>
   afterPasses exampleDecoder 2 emptyManager \<lparr>buffer = unknownCategoryBuffer, seekPosition = 8\<rparr>
     = Some (emptyManager\<lparr>units := [(2, unit2G1)]\<rparr>,
             \<lparr>buffer = unknownCategoryBuffer, seekPosition = 39\<rparr>) \<and>
   update exampleDecoder exampleApp emptyManager tankFieldBuffer = (Returned 100, emptyManager)"
proof -
  let ?d = "\<lambda>k. \<lparr>buffer = unknownCategoryBuffer, seekPosition = k\<rparr>"
  let ?e = "\<lambda>k. \<lparr>buffer = tankFieldBuffer, seekPosition = k\<rparr>"
  have a: "extractUInt64 (newDataExtractor unknownCategoryBuffer) = Inr (100, ?d 8)"
    "afterPasses exampleDecoder 0 emptyManager (?d 8) = Some (emptyManager, ?d 8)"
    "getSeekPosition (?d 8) < byteLength (?d 8)"
    "extractUInt32 (?d 8) = Inr (1, ?d 12)"
    "\<not> hasUnit emptyManager 1"
    "extractUInt8 (?d 12) = Inr (categoryIndex exampleDecoder, ?d 13)"
    "extractString (?d 13) = Inr (''Tank'', ?d 19)"
    "getConstructor ''Tank'' = None"
    by (simp_all add: cursor_defs unknownCategoryBuffer_def exampleDecoder_def hasUnit_def
        emptyManager_def getConstructor_def)
  note w = unknown_category_skips_nothing [OF a, of exampleApp]
  have b: "getSeekPosition (?d 19) < byteLength (?d 19)"
    "extractUInt32 (?d 19) = Inr (2, ?d 23)"
    "\<not> hasUnit emptyManager 2"
    "extractUInt8 (?d 23) = Inr (categoryIndex exampleDecoder, ?d 24)"
    "extractString (?d 24) = Inr (''Aircraft'', ?d 34)"
    "getConstructor ''Aircraft'' = Some Aircraft"
    by (simp_all add: cursor_defs unknownCategoryBuffer_def exampleDecoder_def hasUnit_def
        emptyManager_def getConstructor_def)
  have c: "unitSetData exampleDecoder (constructUnit Aircraft 2) (remainingBytes (?d 34))
             = Inr (unit2G1, 5, False)"
    "seekPosition (?d 34) + 5 \<le> length (buffer (?d 34))"
    by (simp_all add: cursor_defs unknownCategoryBuffer_def exampleDecoder_def
        exampleSetData_def unit2G1_def constructUnit_def isWeapon_def blankUnit_def)
  from w have one: "afterPasses exampleDecoder 1 emptyManager (?d 8) = Some (emptyManager, ?d 19)"
    by simp
  from w b c have "afterPasses exampleDecoder (Suc (Suc 0)) emptyManager (?d 8)
      = Some (emptyManager\<lparr>units := putUnit 2 unit2G1 (units emptyManager),
                requestDetectionUpdate := (requestDetectionUpdate emptyManager \<or> False)\<rparr>,
              (?d 34)\<lparr>seekPosition := seekPosition (?d 34) + 5\<rparr>)"
    by blast
  then have two: "afterPasses exampleDecoder 2 emptyManager (?d 8)
      = Some (emptyManager\<lparr>units := [(2, unit2G1)]\<rparr>, ?d 39)"
    by (simp add: emptyManager_def numeral_2_eq_2)
  have a': "extractUInt64 (newDataExtractor tankFieldBuffer) = Inr (100, ?e 8)"
    "afterPasses exampleDecoder 0 emptyManager (?e 8) = Some (emptyManager, ?e 8)"
    "getSeekPosition (?e 8) < byteLength (?e 8)"
    "extractUInt32 (?e 8) = Inr (1, ?e 12)"
    "\<not> hasUnit emptyManager 1"
    "extractUInt8 (?e 12) = Inr (categoryIndex exampleDecoder, ?e 13)"
    "extractString (?e 13) = Inr (''Tank'', ?e 19)"
    "getConstructor ''Tank'' = None"
    by (simp_all add: cursor_defs tankFieldBuffer_def exampleDecoder_def hasUnit_def
        emptyManager_def getConstructor_def)
  have b': "getSeekPosition (?e 19) < byteLength (?e 19)"
    "extractUInt32 (?e 19) = Inr (1191182851, ?e 23)"
    "\<not> hasUnit emptyManager 1191182851"
    "extractUInt8 (?e 23) = Inr (49, ?e 24)"
    "49 \<noteq> categoryIndex exampleDecoder"
    by (simp_all add: cursor_defs tankFieldBuffer_def exampleDecoder_def hasUnit_def
        emptyManager_def)
  from unknown_category_skips_nothing [OF a', of exampleApp] b'
  have three: "update exampleDecoder exampleApp emptyManager tankFieldBuffer
                 = (Returned 100, emptyManager)"
    by blast
  from one two three show ?thesis by simp
qed

text \<open>
  The whole of \<open>update\<close> on \<open>unknownCategoryBuffer\<close>, where the unit of unknown
  category has no field after its category: that unit is left out, the one after it
  is created, updated and put into its group.
\<close>

lemma unknownCategoryBuffer_update:
  "update exampleDecoder exampleApp emptyManager unknownCategoryBuffer
     = (Returned 100,
        \<lparr> units = [(2, (constructUnit Aircraft 2)
                     \<lparr>data := initialData\<lparr>baseData := (baseData initialData)\<lparr>groupName := ''G1''\<rparr>\<rparr>,
                      group := Some ''G1''\<rparr>)],
          groups = [(''G1'', \<lparr>groupNameOf = ''G1'', members = [2]\<rparr>)],
          requestDetectionUpdate = False \<rparr>)"
  apply (simp add: update_def cursor_defs unknownCategoryBuffer_def)
  apply (subst decodeLoop.simps, simp add: cursor_defs loop_defs exampleDecoder_def
      exampleSetData_def emptyManager_def)
  apply (subst decodeLoop.simps, simp add: cursor_defs loop_defs exampleDecoder_def
      exampleSetData_def emptyManager_def)
  apply (subst decodeLoop.simps, simp add: cursor_defs loop_defs exampleDecoder_def
      exampleSetData_def emptyManager_def)
  apply (simp add: Let_def afterLoop_def updateGroups_def assignGroup_def getUnitByID_def
      getGroupName_def constructUnit_def isWeapon_def blankUnit_def inGroups_def
      objectPrototypeKeys_def addMember_def newGroup_def updateDetection_def)
  done

section \<open>Visibility and selection of a unit\<close>

text \<open>
  Claim C9. After \<open>updateVisibility\<close> the unit is hidden exactly when \<open>document.body\<close>
  carries the hide attribute of the unit's coalition, or the hide attribute of the
  unit's marker category, or the unit is not alive.
\<close>

theorem updateVisibility_hidden_iff:
  "getHidden (updateVisibility env u) \<longleftrightarrow>
     hasBodyAttribute env (''data-hide-'' @ coalition (missionData (data u))) \<or>
     hasBodyAttribute env (''data-hide-'' @ getMarkerCategory env u) \<or>
     \<not> alive (baseData (data u))"
  by (simp add: updateVisibility_def setHidden_def Let_def)

theorem updateVisibility_hidden_iff_witness:
  "\<not> getHidden (updateVisibility exampleEnv (ofCoalition (blankUnit Aircraft 1) ''blue'')) \<and>
   getHidden (updateVisibility exampleEnv (ofCoalition (blankUnit Aircraft 1) ''red'')) \<and>
   getHidden (updateVisibility exampleEnv (ofCoalition (blankUnit NavyUnit 1) ''blue'')) \<and>
   getHidden (updateVisibility exampleEnv (killed (ofCoalition (blankUnit Aircraft 1) ''blue'')))"
  using updateVisibility_hidden_iff [of exampleEnv "ofCoalition (blankUnit Aircraft 1) ''blue''"]
    updateVisibility_hidden_iff [of exampleEnv "ofCoalition (blankUnit Aircraft 1) ''red''"]
    updateVisibility_hidden_iff [of exampleEnv "ofCoalition (blankUnit NavyUnit 1) ''blue''"]
    updateVisibility_hidden_iff [of exampleEnv "killed (ofCoalition (blankUnit Aircraft 1) ''blue'')"]
  by (simp add: exampleEnv_def ofCoalition_def killed_def blankUnit_def initialData_def
      hasBodyAttribute_def getMarkerCategory_def)

lemma setSelected_inv: "selectionInv u \<Longrightarrow> selectionInv (setSelected u b)"
  by (auto simp: selectionInv_def setSelected_def)

lemma setHidden_inv: "selectionInv u \<Longrightarrow> selectionInv (setHidden u h)"
  by (auto simp: selectionInv_def setHidden_def Let_def)

lemma updateVisibility_inv: "selectionInv u \<Longrightarrow> selectionInv (updateVisibility env u)"
  by (simp add: updateVisibility_def setHidden_inv)

lemma setSelected_fields [simp]:
  "data (setSelected u b) = data u" "selectable (setSelected u b) = selectable u"
  "cls (setSelected u b) = cls u" "hidden (setSelected u b) = hidden u"
  by (simp_all add: setSelected_def)

lemma setHidden_fields [simp]:
  "data (setHidden u h) = data u" "selectable (setHidden u h) = selectable u"
  "cls (setHidden u h) = cls u" "selected (setHidden u h) = selected u"
  by (simp_all add: setHidden_def Let_def)

lemma updateVisibility_fields [simp]:
  "data (updateVisibility env u) = data u" "selectable (updateVisibility env u) = selectable u"
  "cls (updateVisibility env u) = cls u" "selected (updateVisibility env u) = selected u"
  by (simp_all add: updateVisibility_def)

lemma setData_selected:
  assumes "setData env u d = Inr u'"
  shows "selected u' = selected (setSelected (u\<lparr>data := mergeData (data u) d\<rparr>)
            (selected u \<and> alive (baseData (mergeData (data u) d)) \<and> \<not> hidden u))"
    and "data u' = mergeData (data u) d" and "selectable u' = selectable u" and "cls u' = cls u"
  using assms by (auto simp: setData_def Let_def split: option.splits if_splits)

lemma setData_returns:
  "upd_flightData d = Some f \<Longrightarrow> upd_baseData d = Some b \<Longrightarrow> \<exists>u'. setData env u d = Inr u'"
  by (simp add: setData_def Let_def)

lemma setData_raises:
  "upd_flightData d = None \<or> upd_baseData d = None \<Longrightarrow> setData env u d = Inl TypeError"
  by (auto simp: setData_def split: option.splits)

lemma setData_inv:
  assumes "setData env u d = Inr u'" and "selectionInv u"
  shows "selectionInv u'"
  using assms(2) setData_selected [OF assms(1)]
  by (auto simp: selectionInv_def setSelected_def split: if_splits)

lemma afterSetData_inv: "selectionInv u \<Longrightarrow> selectionInv (afterSetData env u d)"
  by (auto simp: afterSetData_def split: sum.splits dest: setData_inv)

lemma writeActivePath_inv: "selectionInv u \<Longrightarrow> selectionInv (writeActivePath u p)"
  by (simp add: selectionInv_def writeActivePath_def)

lemma applyCall_inv: "selectionInv u \<Longrightarrow> selectionInv (applyCall u c)"
  by (cases c) (simp_all add: afterSetData_inv setSelected_inv updateVisibility_inv setHidden_inv
      writeActivePath_inv)

lemma applyCalls_inv: "selectionInv u \<Longrightarrow> selectionInv (applyCalls u cs)"
  unfolding applyCalls_def by (induction cs arbitrary: u) (simp_all add: applyCall_inv)

lemma applyCall_cls: "cls (applyCall u c) = cls u"
  by (cases c) (auto simp: afterSetData_def writeActivePath_def split: sum.splits
      dest: setData_selected(4))

lemma applyCalls_cls: "cls (applyCalls u cs) = cls u"
  unfolding applyCalls_def by (induction cs arbitrary: u) (simp_all add: applyCall_cls)

lemma blankUnit_inv: "selectionInv ((blankUnit c i)\<lparr>selectable := s\<rparr>) \<longleftrightarrow> (isWeapon c \<longrightarrow> \<not> s)"
  by (simp add: selectionInv_def blankUnit_def)

lemma newUnit_inv:
  assumes "newUnit env c i d = Inr u"
  shows "selectionInv u \<and> cls u = c"
proof -
  from assms obtain v where v: "setData env (blankUnit c i) d = Inr v"
    and u: "u = (if isWeapon c then setSelectable v False else v)"
    by (auto simp: newUnit_def split: sum.splits)
  have "\<not> selected v" "cls v = c" "selectable v"
    using setData_selected [OF v] by (simp_all add: blankUnit_def setSelected_def)
  with u show ?thesis
    by (auto simp: selectionInv_def setSelectable_def)
qed

lemma constructUnit_inv: "selectionInv (constructUnit c i) \<and> cls (constructUnit c i) = c"
  by (simp add: constructUnit_def selectionInv_def setSelectable_def blankUnit_def)

text \<open>
  Claim C5. Take a unit object made by a constructor (with a first update, or the one
  the manager calls with the ID alone) and then changed by any calls of
  \<open>setData\<close>, \<open>setSelected\<close>, \<open>updateVisibility\<close> and \<open>setHidden\<close>. If its alive flag is
  false, or it is a Missile or a Bomb, it is not selected, and \<open>setSelected(true)\<close>
  leaves \<open>getSelected()\<close> false. And whenever a call of \<open>setData\<close> on it leaves the alive
  flag false, \<open>getSelected()\<close> is false after that call, whatever it was before.
\<close>

theorem dead_or_weapon_never_selected:
  assumes "newUnit env0 c i d0 = Inr u0 \<or> u0 = constructUnit c i"
  shows "(\<not> alive (baseData (data (applyCalls u0 cs))) \<or> isWeapon c \<longrightarrow>
            \<not> getSelected (applyCalls u0 cs) \<and>
            \<not> getSelected (setSelected (applyCalls u0 cs) True)) \<and>
         (\<forall>env d u'. setData env (applyCalls u0 cs) d = Inr u' \<longrightarrow>
            \<not> alive (baseData (data u')) \<longrightarrow> \<not> getSelected u')"
proof -
  let ?u = "applyCalls u0 cs"
  from assms newUnit_inv [of env0 c i d0 u0] constructUnit_inv [of c i]
  have "selectionInv u0 \<and> cls u0 = c" by blast
  then have inv: "selectionInv ?u" and c: "cls ?u = c"
    by (simp_all add: applyCalls_inv applyCalls_cls)
  have "\<not> alive (baseData (data ?u)) \<or> isWeapon c \<longrightarrow>
          \<not> getSelected ?u \<and> \<not> getSelected (setSelected ?u True)"
    using inv c by (auto simp: selectionInv_def setSelected_def)
  moreover have "\<forall>env d u'. setData env ?u d = Inr u' \<longrightarrow>
                   \<not> alive (baseData (data u')) \<longrightarrow> \<not> getSelected u'"
    using setData_inv [OF _ inv] by (auto simp: selectionInv_def)
  ultimately show ?thesis by blast
qed

lemmas setData_eval =
  newUnit_def setData_def bareUpdate_def emptyUpdate_def noBase_def noFlight_def
  blankUnit_def mergeData_def mergeBase_def mergeFlight_def setField_def initialData_def
  setSelected_def updateVisibility_def setHidden_def hasBodyAttribute_def exampleEnv_def
  setSelectable_def getMarkerCategory_def isWeapon_def Let_def

lemma newUnit_bare_aircraft:
  "newUnit exampleEnv Aircraft 1 bareUpdate = Inr ((blankUnit Aircraft 1)\<lparr>onMap := True\<rparr>)"
  by (simp add: setData_eval)

lemma newUnit_bare_missile:
  "newUnit exampleEnv Missile 1 bareUpdate
     = Inr ((blankUnit Missile 1)\<lparr>onMap := True, selectable := False\<rparr>)"
  by (simp add: setData_eval)

theorem dead_or_weapon_never_selected_witness:
  "getSelected (applyCalls ((blankUnit Aircraft 1)\<lparr>onMap := True\<rparr>) [CallSetSelected True]) \<and>
   (\<exists>u'. setData exampleEnv
            (applyCalls ((blankUnit Aircraft 1)\<lparr>onMap := True\<rparr>) [CallSetSelected True])
            deathUpdate = Inr u' \<and>
          \<not> alive (baseData (data u')) \<and> \<not> getSelected u') \<and>
   \<not> getSelected (setSelected
        (applyCalls ((blankUnit Missile 1)\<lparr>onMap := True, selectable := False\<rparr>) []) True)"
proof -
  let ?a = "(blankUnit Aircraft 1)\<lparr>onMap := True\<rparr>"
  let ?m = "(blankUnit Missile 1)\<lparr>onMap := True, selectable := False\<rparr>"
  have sel: "getSelected (applyCalls ?a [CallSetSelected True])"
    by (simp add: applyCalls_def setSelected_def blankUnit_def initialData_def)
  obtain u' where u': "setData exampleEnv (applyCalls ?a [CallSetSelected True]) deathUpdate = Inr u'"
    using setData_returns [of deathUpdate noFlight "noBase\<lparr>upd_alive := Some False\<rparr>"]
    by (auto simp: deathUpdate_def bareUpdate_def emptyUpdate_def)
  have dead: "\<not> alive (baseData (data u'))"
    using setData_selected(2) [OF u']
    by (simp add: deathUpdate_def bareUpdate_def emptyUpdate_def noBase_def
        mergeData_def mergeBase_def setField_def)
  from dead_or_weapon_never_selected [OF disjI1 [OF newUnit_bare_aircraft],
      of "[CallSetSelected True]"]
    u' dead
  have "\<not> getSelected u'" by blast
  moreover from dead_or_weapon_never_selected [OF disjI1 [OF newUnit_bare_missile], of "[]"]
  have "\<not> getSelected (setSelected (applyCalls ?m []) True)"
    by (simp add: isWeapon_def)
  ultimately show ?thesis using sel u' dead by blast
qed

section \<open>Selection by hotgroup\<close>

lemma map_of_putUnit: "map_of (putUnit i u us) = (map_of us)(i \<mapsto> u)"
  by (induction us) (auto simp: fun_eq_iff)

lemma selectEach_other:
  "j \<notin> fst ` set sel \<Longrightarrow> map_of (units (selectEach m sel)) j = map_of (units m) j"
  unfolding selectEach_def
  by (induction sel arbitrary: m) (auto simp: map_of_putUnit)

lemma deselectAllUnits_keys: "map fst (units (deselectAllUnits m)) = map fst (units m)"
  by (simp add: deselectAllUnits_def case_prod_unfold)

lemma getUnitsByHotgroup_set:
  "set (getUnitsByHotgroup m h)
     = {(i, u). (i, u) \<in> set (units m) \<and> getAlive u \<and> getHotgroup u = Some h}"
  by (auto simp: getUnitsByHotgroup_def)

text \<open>
  Claim C10. \<open>getUnitsByHotgroup(h)\<close> returns exactly the units of the table that are
  alive and whose hotgroup is \<open>h\<close>. \<open>selectUnitsByHotgroup(h)\<close> calls
  \<open>setSelected(true)\<close> on the units of that list and on no other: a unit that is dead
  or of another hotgroup is not in the list, and it is after the call as the optional
  \<open>deselectAllUnits\<close> left it.
\<close>

theorem hotgroup_selection_skips_dead_and_foreign:
  assumes "distinct (map fst (units m))"
    and "m1 = (if deselectAll then deselectAllUnits m else m)"
  shows "set (getUnitsByHotgroup m h)
           = {(i, u). (i, u) \<in> set (units m) \<and> getAlive u \<and> getHotgroup u = Some h} \<and>
         selectUnitsByHotgroup m h deselectAll = selectEach m1 (getUnitsByHotgroup m1 h) \<and>
         (\<forall>(i, u) \<in> set (getUnitsByHotgroup m1 h). getAlive u \<and> getHotgroup u = Some h) \<and>
         (\<forall>(j, v) \<in> set (units m1). \<not> getAlive v \<or> getHotgroup v \<noteq> Some h \<longrightarrow>
            (j, v) \<notin> set (getUnitsByHotgroup m1 h) \<and>
            map_of (units (selectUnitsByHotgroup m h deselectAll)) j = Some v)"
proof -
  have d1: "distinct (map fst (units m1))"
    using assms by (simp add: deselectAllUnits_keys)
  have sel: "selectUnitsByHotgroup m h deselectAll = selectEach m1 (getUnitsByHotgroup m1 h)"
    using assms(2) by (simp add: selectUnitsByHotgroup_def Let_def)
  have "map_of (units (selectEach m1 (getUnitsByHotgroup m1 h))) j = Some v"
    if jv: "(j, v) \<in> set (units m1)" and no: "\<not> getAlive v \<or> getHotgroup v \<noteq> Some h" for j v
  proof -
    have "j \<notin> fst ` set (getUnitsByHotgroup m1 h)"
    proof
      assume "j \<in> fst ` set (getUnitsByHotgroup m1 h)"
      then obtain w where w: "(j, w) \<in> set (units m1)" "getAlive w" "getHotgroup w = Some h"
        by (auto simp: getUnitsByHotgroup_set)
      from d1 jv w(1) have "w = v"
        by (meson eq_key_imp_eq_value)
      with w no show False by simp
    qed
    then have "map_of (units (selectEach m1 (getUnitsByHotgroup m1 h))) j = map_of (units m1) j"
      by (rule selectEach_other)
    also from d1 jv have "\<dots> = Some v" by simp
    finally show ?thesis .
  qed
  with sel show ?thesis
    by (auto simp: getUnitsByHotgroup_set)
qed

theorem hotgroup_selection_skips_dead_and_foreign_witness:
  "map fst (getUnitsByHotgroup hotgroupManager 1) = [1] \<and>
   map_of (units (selectUnitsByHotgroup hotgroupManager 1 True)) 2
     = Some (killed (inHotgroup (blankUnit Aircraft 2) 1)) \<and>
   map_of (units (selectUnitsByHotgroup hotgroupManager 1 True)) 3
     = Some (inHotgroup (blankUnit Aircraft 3) 2) \<and>
   map_of (units (selectUnitsByHotgroup hotgroupManager 1 True)) 1
     = Some ((inHotgroup (blankUnit Aircraft 1) 1)\<lparr>selected := True\<rparr>)"
proof -
  have units1: "units (deselectAllUnits hotgroupManager) = units hotgroupManager"
    by (simp add: deselectAllUnits_def hotgroupManager_def setSelected_def inHotgroup_def
        killed_def blankUnit_def)
  have d: "distinct (map fst (units hotgroupManager))"
    by (simp add: hotgroupManager_def)
  note w = hotgroup_selection_skips_dead_and_foreign
    [OF d, of "deselectAllUnits hotgroupManager" True 1, simplified units1]
  have dead: "\<not> getAlive (killed (inHotgroup (blankUnit Aircraft 2) 1))"
    by (simp add: getAlive_def killed_def)
  have other: "getHotgroup (inHotgroup (blankUnit Aircraft 3) 2) \<noteq> Some 1"
    by (simp add: inHotgroup_def)
  have in2: "(2, killed (inHotgroup (blankUnit Aircraft 2) 1)) \<in> set (units hotgroupManager)"
    and in3: "(3, inHotgroup (blankUnit Aircraft 3) 2) \<in> set (units hotgroupManager)"
    by (simp_all add: hotgroupManager_def)
  from w in2 dead have two: "map_of (units (selectUnitsByHotgroup hotgroupManager 1 True)) 2
     = Some (killed (inHotgroup (blankUnit Aircraft 2) 1))"
    by fastforce
  from w in3 other have three: "map_of (units (selectUnitsByHotgroup hotgroupManager 1 True)) 3
     = Some (inHotgroup (blankUnit Aircraft 3) 2)"
    by fastforce
  have list: "getUnitsByHotgroup hotgroupManager 1 = [(1, inHotgroup (blankUnit Aircraft 1) 1)]"
    by (simp add: getUnitsByHotgroup_def hotgroupManager_def getAlive_def inHotgroup_def
        killed_def blankUnit_def initialData_def)
  have dm: "deselectAllUnits hotgroupManager = hotgroupManager"
    using units1 by (simp add: deselectAllUnits_def)
  have one: "map_of (units (selectUnitsByHotgroup hotgroupManager 1 True)) 1
     = Some ((inHotgroup (blankUnit Aircraft 1) 1)\<lparr>selected := True\<rparr>)"
  proof -
    have "selectUnitsByHotgroup hotgroupManager 1 True
            = selectEach hotgroupManager [(1, inHotgroup (blankUnit Aircraft 1) 1)]"
      by (simp only: selectUnitsByHotgroup_def Let_def if_True dm list)
    then show ?thesis
      by (simp add: selectEach_def map_of_putUnit setSelected_def inHotgroup_def blankUnit_def
          initialData_def)
  qed
  from list two three one show ?thesis by simp
qed

section \<open>Group assignment\<close>

lemma getUnitByID_putUnit:
  "getUnitByID (m\<lparr>units := putUnit i u (units m)\<rparr>) = (getUnitByID m)(i \<mapsto> u)"
  by (simp add: getUnitByID_def map_of_putUnit fun_eq_iff)

lemma isMember_append:
  "map_of (groups m) n = None \<Longrightarrow> isMember m n' j \<Longrightarrow>
     isMember (m\<lparr>groups := groups m @ [(n, g)]\<rparr>) n' j"
  by (auto simp: isMember_def map_add_def split: option.splits)

lemma assignGroup_effect:
  assumes u: "getUnitByID m i = Some u" and ok: "awaitsGroup u \<longrightarrow> \<not> inheritedName u"
  shows "\<exists>m'. assignGroup m i = Inr m' \<and>
           getUnitByID m' = (getUnitByID m)
              (i \<mapsto> (if awaitsGroup u then u\<lparr>group := Some (getGroupName u)\<rparr> else u)) \<and>
           (\<forall>n j. isMember m n j \<longrightarrow> isMember m' n j) \<and>
           (awaitsGroup u \<longrightarrow> isMember m' (getGroupName u) i)"
proof (cases "getGroupName u = ''''")
  case True
  with u show ?thesis
    by (auto simp: assignGroup_def awaitsGroup_def Let_def fun_eq_iff)
next
  case named: False
  let ?n = "getGroupName u"
  let ?m1 = "if \<not> inGroups ?n (groups m)
             then m\<lparr>groups := groups m @ [(?n, newGroup ?n)]\<rparr> else m"
  have units1: "units ?m1 = units m" by simp
  have mono1: "isMember m n j \<Longrightarrow> isMember ?m1 n j" for n j
    by (auto simp: inGroups_def intro: isMember_append)
  show ?thesis
  proof (cases "getGroup u")
    case (Some a)
    with u named have "assignGroup m i = Inr ?m1"
      by (simp add: assignGroup_def Let_def)
    moreover have "getUnitByID ?m1 = getUnitByID m"
      by (simp add: getUnitByID_def fun_eq_iff)
    ultimately show ?thesis
      using Some u mono1 by (auto simp: awaitsGroup_def fun_eq_iff)
  next
    case None
    with named have aw: "awaitsGroup u" by (simp add: awaitsGroup_def)
    with ok have ninh: "?n \<notin> set objectPrototypeKeys" by (simp add: inheritedName_def)
    then obtain g where g: "map_of (groups ?m1) ?n = Some g"
      by (cases "map_of (groups m) ?n") (auto simp: inGroups_def map_add_def)
    let ?m' = "addMember ?m1 ?n g i u"
    from u named None g have res: "assignGroup m i = Inr ?m'"
      by (simp add: assignGroup_def Let_def)
    have un: "getUnitByID ?m' = (getUnitByID m)(i \<mapsto> u\<lparr>group := Some ?n\<rparr>)"
      by (simp add: addMember_def getUnitByID_def map_of_putUnit fun_eq_iff)
    have gr: "map_of (groups ?m') = (map_of (groups ?m1))(?n \<mapsto> g\<lparr>members := members g @ [i]\<rparr>)"
      by (simp add: addMember_def update_conv')
    have mono2: "isMember ?m1 n j \<Longrightarrow> isMember ?m' n j" for n j
      using g gr by (auto simp: isMember_def split: option.splits)
    have mem: "isMember ?m' ?n i"
      using gr by (simp add: isMember_def)
    from res un mono1 mono2 mem aw show ?thesis
      by (intro exI [of _ ?m']) (simp add: fun_eq_iff)
  qed
qed

lemma assignGroups_effect:
  assumes "\<forall>i \<in> set ks. getUnitByID m i \<noteq> None"
    and "\<forall>i u. getUnitByID m i = Some u \<longrightarrow> awaitsGroup u \<longrightarrow> \<not> inheritedName u"
  shows "\<exists>m2. assignGroups m ks = (None, m2) \<and>
           (\<forall>i u. getUnitByID m i = Some u \<longrightarrow>
              getUnitByID m2 i
                = Some (if i \<in> set ks \<and> awaitsGroup u
                        then u\<lparr>group := Some (getGroupName u)\<rparr> else u) \<and>
              (i \<in> set ks \<and> awaitsGroup u \<longrightarrow> isMember m2 (getGroupName u) i)) \<and>
           (\<forall>i. getUnitByID m i = None \<longrightarrow> getUnitByID m2 i = None) \<and>
           (\<forall>n j. isMember m n j \<longrightarrow> isMember m2 n j)"
  using assms
proof (induction ks arbitrary: m)
  case Nil
  then show ?case by simp
next
  case (Cons k ks)
  from Cons.prems(1) obtain uk where uk: "getUnitByID m k = Some uk" by auto
  with Cons.prems(2) have okk: "awaitsGroup uk \<longrightarrow> \<not> inheritedName uk" by simp
  let ?uk' = "if awaitsGroup uk then uk\<lparr>group := Some (getGroupName uk)\<rparr> else uk"
  from assignGroup_effect [OF uk okk] obtain m' where
    step: "assignGroup m k = Inr m'" and
    un: "getUnitByID m' = (getUnitByID m)(k \<mapsto> ?uk')" and
    mono: "\<And>n j. isMember m n j \<Longrightarrow> isMember m' n j" and
    mem: "awaitsGroup uk \<Longrightarrow> isMember m' (getGroupName uk) k"
    by blast
  have uk'_settled: "\<not> awaitsGroup ?uk'"
    by (simp add: awaitsGroup_def getGroupName_def)
  have p1: "\<forall>i \<in> set ks. getUnitByID m' i \<noteq> None"
    using Cons.prems(1) un by simp
  have p2: "\<forall>i u. getUnitByID m' i = Some u \<longrightarrow> awaitsGroup u \<longrightarrow> \<not> inheritedName u"
    using Cons.prems(2) un uk'_settled by (auto split: if_splits)
  from Cons.IH [OF p1 p2] obtain m2 where
    run: "assignGroups m' ks = (None, m2)" and
    r1: "\<And>i u. getUnitByID m' i = Some u \<Longrightarrow>
            getUnitByID m2 i
              = Some (if i \<in> set ks \<and> awaitsGroup u
                      then u\<lparr>group := Some (getGroupName u)\<rparr> else u) \<and>
            (i \<in> set ks \<and> awaitsGroup u \<longrightarrow> isMember m2 (getGroupName u) i)" and
    r2: "\<And>i. getUnitByID m' i = None \<Longrightarrow> getUnitByID m2 i = None" and
    r3: "\<And>n j. isMember m' n j \<Longrightarrow> isMember m2 n j"
    by blast
  have "assignGroups m (k # ks) = (None, m2)"
    using step run by simp
  moreover have "getUnitByID m2 i
                = Some (if i \<in> set (k # ks) \<and> awaitsGroup u
                        then u\<lparr>group := Some (getGroupName u)\<rparr> else u) \<and>
              (i \<in> set (k # ks) \<and> awaitsGroup u \<longrightarrow> isMember m2 (getGroupName u) i)"
    if iu: "getUnitByID m i = Some u" for i u
  proof (cases "i = k")
    case True
    with iu uk have [simp]: "u = uk" by simp
    from un True have "getUnitByID m' i = Some ?uk'" by simp
    from r1 [OF this] uk'_settled have "getUnitByID m2 i = Some ?uk'" by simp
    with True mem r3 show ?thesis by auto
  next
    case False
    with un iu have "getUnitByID m' i = Some u" by simp
    from r1 [OF this] False show ?thesis by simp
  qed
  moreover have "getUnitByID m2 i = None" if "getUnitByID m i = None" for i
  proof -
    from that uk have "i \<noteq> k" by auto
    with un that have "getUnitByID m' i = None" by simp
    then show ?thesis by (rule r2)
  qed
  moreover have "isMember m2 n j" if "isMember m n j" for n j
    using that mono r3 by blast
  ultimately show ?case by blast
qed

lemma updateGroups_effect:
  assumes "\<forall>i u. getUnitByID m i = Some u \<longrightarrow> awaitsGroup u \<longrightarrow> \<not> inheritedName u"
  shows "\<exists>m2. updateGroups m = (None, m2) \<and>
           (\<forall>i u. getUnitByID m i = Some u \<longrightarrow>
              getUnitByID m2 i
                = Some (if awaitsGroup u then u\<lparr>group := Some (getGroupName u)\<rparr> else u) \<and>
              (awaitsGroup u \<longrightarrow> isMember m2 (getGroupName u) i)) \<and>
           (\<forall>i. getUnitByID m i = None \<longrightarrow> getUnitByID m2 i = None) \<and>
           (\<forall>n j. isMember m n j \<longrightarrow> isMember m2 n j)"
proof -
  have keys: "\<forall>i \<in> set (map fst (units m)). getUnitByID m i \<noteq> None"
    by (auto simp: getUnitByID_def weak_map_of_SomeI map_of_eq_None_iff)
  have dom: "i \<in> set (map fst (units m))" if "getUnitByID m i = Some u" for i u
    using that by (auto simp: getUnitByID_def dest: map_of_SomeD intro: rev_image_eqI)
  from assignGroups_effect [OF keys assms] dom show ?thesis
    unfolding updateGroups_def by (auto cong: if_cong)
qed

lemma map_of_setAllDetections:
  "map_of (setAllDetections t us) i
     = map_option (\<lambda>u. case t i of None \<Rightarrow> u | Some ms \<Rightarrow> setDetectionMethods u ms) (map_of us i)"
  unfolding setAllDetections_def by (induction us) (auto split: option.splits)

lemma updateDetection_keeps_groups:
  "groups (updateDetection app m) = groups m"
  "getUnitByID m i = Some u \<Longrightarrow>
     \<exists>u'. getUnitByID (updateDetection app m) i = Some u' \<and> getGroup u' = getGroup u \<and>
          data u' = data u"
  by (auto simp: updateDetection_def getUnitByID_def map_of_setAllDetections
      setDetectionMethods_def split: option.splits)

lemma isMember_updateDetection: "isMember (updateDetection app m) n i = isMember m n i"
  by (simp add: isMember_def updateDetection_keeps_groups(1))

lemma unknownCategoryBuffer_loop:
  "decodeLoop exampleDecoder emptyManager \<lparr>buffer = unknownCategoryBuffer, seekPosition = 8\<rparr>
     = Finished (emptyManager\<lparr>units := [(2, unit2G1)]\<rparr>)"
  apply (subst decodeLoop.simps, simp add: cursor_defs loop_defs exampleDecoder_def
      exampleSetData_def emptyManager_def unknownCategoryBuffer_def)
  apply (subst decodeLoop.simps, simp add: cursor_defs loop_defs exampleDecoder_def
      exampleSetData_def emptyManager_def unknownCategoryBuffer_def)
  apply (subst decodeLoop.simps, simp add: cursor_defs loop_defs exampleDecoder_def
      exampleSetData_def emptyManager_def unknownCategoryBuffer_def unit2G1_def
      constructUnit_def isWeapon_def blankUnit_def)
  done

lemma abortBuffer_loop:
  "decodeLoop exampleDecoder emptyManager \<lparr>buffer = abortBuffer, seekPosition = 8\<rparr>
     = Aborted (emptyManager\<lparr>units := [(1, unitG1)]\<rparr>)"
  apply (subst decodeLoop.simps, simp add: cursor_defs loop_defs exampleDecoder_def
      exampleSetData_def emptyManager_def abortBuffer_def)
  apply (subst decodeLoop.simps, simp add: cursor_defs loop_defs exampleDecoder_def
      exampleSetData_def emptyManager_def abortBuffer_def unitG1_def
      constructUnit_def isWeapon_def blankUnit_def)
  done

lemma strayBuffer_loop:
  "decodeLoop exampleDecoder (emptyManager\<lparr>units := [(1, unitG1)]\<rparr>)
       \<lparr>buffer = strayBuffer, seekPosition = 8\<rparr>
     = Aborted (emptyManager\<lparr>units := [(1, unitG1)]\<rparr>)"
  by (subst decodeLoop.simps) (simp add: cursor_defs loop_defs exampleDecoder_def
      emptyManager_def strayBuffer_def)

text \<open>
  Claim C2 does not hold as stated. On \<open>abortBuffer\<close> the loop creates unit 1, which
  reports the group name G1, and then aborts on ID 2: \<open>update\<close> returns from inside
  the loop, unit 1 has no group and no Group object exists. A second call that aborts
  leaves it so.
\<close>

theorem groups_not_assigned_after_abort:
  "update exampleDecoder exampleApp emptyManager abortBuffer
     = (Returned 100, emptyManager\<lparr>units := [(1, unitG1)]\<rparr>) \<and>
   update exampleDecoder exampleApp (emptyManager\<lparr>units := [(1, unitG1)]\<rparr>) strayBuffer
     = (Returned 100, emptyManager\<lparr>units := [(1, unitG1)]\<rparr>) \<and>
   getGroupName unitG1 = ''G1'' \<and> getGroup unitG1 = None \<and>
   groups (emptyManager\<lparr>units := [(1, unitG1)]\<rparr>) = []"
proof -
  have t1: "extractUInt64 (newDataExtractor abortBuffer)
              = Inr (100, \<lparr>buffer = abortBuffer, seekPosition = 8\<rparr>)"
    by (simp add: cursor_defs abortBuffer_def)
  have t2: "extractUInt64 (newDataExtractor strayBuffer)
              = Inr (100, \<lparr>buffer = strayBuffer, seekPosition = 8\<rparr>)"
    by (simp add: cursor_defs strayBuffer_def)
  have "update exampleDecoder exampleApp emptyManager abortBuffer
          = (Returned 100, emptyManager\<lparr>units := [(1, unitG1)]\<rparr>)"
    by (simp add: update_def t1 abortBuffer_loop)
  moreover have "update exampleDecoder exampleApp (emptyManager\<lparr>units := [(1, unitG1)]\<rparr>)
                   strayBuffer
          = (Returned 100, emptyManager\<lparr>units := [(1, unitG1)]\<rparr>)"
    by (simp add: update_def t2 strayBuffer_loop del: One_nat_def)
  moreover have "getGroupName unitG1 = ''G1''" "getGroup unitG1 = None"
    by (simp_all add: unitG1_def getGroupName_def constructUnit_def isWeapon_def blankUnit_def)
  moreover have "groups (emptyManager\<lparr>units := [(1, unitG1)]\<rparr>) = []"
    by (simp add: emptyManager_def)
  ultimately show ?thesis by simp
qed

text \<open>
  Claim C2, amended. When the decode loop of \<open>update\<close> consumes the whole buffer,
  and no unit of the table that has a non-empty group name and no group has as its
  group name the name of a property which the object \<open>#groups\<close> inherits, the group
  step runs to its end and \<open>update\<close> returns: every unit of the table that has a
  non-empty group name and no group is made a member of the Group object of that
  name, which is created when missing, and the unit's group is set. The condition is
  on the whole table, since one unit with an inherited group name ends the step for
  the units after it (lemma \<open>mixedManager_groups\<close> below). When decoding is aborted,
  \<open>update\<close> returns from inside the loop and the group step does not run in that
  call.
\<close>

theorem groups_assigned_when_buffer_consumed:
  assumes "extractUInt64 (newDataExtractor buf) = Inr (updateTime, d0)"
  shows "(decodeLoop dec m d0 = Finished m1 \<and>
            (\<forall>i u. getUnitByID m1 i = Some u \<longrightarrow> awaitsGroup u \<longrightarrow> \<not> inheritedName u) \<longrightarrow>
            (\<exists>m2. update dec app m buf = (Returned updateTime, m2) \<and>
               (\<forall>i u. getUnitByID m1 i = Some u \<and> awaitsGroup u \<longrightarrow>
                  (\<exists>u'. getUnitByID m2 i = Some u' \<and> getGroup u' = Some (getGroupName u) \<and>
                        isMember m2 (getGroupName u) i)))) \<and>
         (decodeLoop dec m d0 = Aborted m1 \<longrightarrow>
            update dec app m buf = (Returned updateTime, m1))"
proof (intro conjI impI)
  assume "decodeLoop dec m d0 = Aborted m1"
  with assms show "update dec app m buf = (Returned updateTime, m1)"
    by (simp add: update_def)
next
  assume a: "decodeLoop dec m d0 = Finished m1 \<and>
            (\<forall>i u. getUnitByID m1 i = Some u \<longrightarrow> awaitsGroup u \<longrightarrow> \<not> inheritedName u)"
  then have fin: "decodeLoop dec m d0 = Finished m1" by simp
  from a updateGroups_effect [of m1] obtain mg where
    ug: "updateGroups m1 = (None, mg)" and
    eff: "\<And>i u. getUnitByID m1 i = Some u \<Longrightarrow>
            getUnitByID mg i
              = Some (if awaitsGroup u then u\<lparr>group := Some (getGroupName u)\<rparr> else u) \<and>
            (awaitsGroup u \<longrightarrow> isMember mg (getGroupName u) i)"
    by blast
  let ?m2 = "updateDetection app mg"
  from assms fin ug have "update dec app m buf = (Returned updateTime, ?m2)"
    by (simp add: update_def afterLoop_def)
  moreover have "\<exists>u'. getUnitByID ?m2 i = Some u' \<and> getGroup u' = Some (getGroupName u) \<and>
                    isMember ?m2 (getGroupName u) i"
    if "getUnitByID m1 i = Some u \<and> awaitsGroup u" for i u
  proof -
    from that eff [of i u] have g: "getUnitByID mg i = Some (u\<lparr>group := Some (getGroupName u)\<rparr>)"
      and mem: "isMember mg (getGroupName u) i"
      by simp_all
    from updateDetection_keeps_groups(2) [OF g, of app] mem show ?thesis
      by (auto simp: isMember_updateDetection)
  qed
  ultimately show "\<exists>m2. update dec app m buf = (Returned updateTime, m2) \<and>
               (\<forall>i u. getUnitByID m1 i = Some u \<and> awaitsGroup u \<longrightarrow>
                  (\<exists>u'. getUnitByID m2 i = Some u' \<and> getGroup u' = Some (getGroupName u) \<and>
                        isMember m2 (getGroupName u) i))"
    by blast
qed

theorem groups_assigned_when_buffer_consumed_witness:
  "(\<exists>m2. update exampleDecoder exampleApp emptyManager unknownCategoryBuffer = (Returned 100, m2) \<and>
      (\<exists>u'. getUnitByID m2 2 = Some u' \<and> getGroup u' = Some ''G1'' \<and> isMember m2 ''G1'' 2)) \<and>
   update exampleDecoder exampleApp emptyManager abortBuffer
     = (Returned 100, emptyManager\<lparr>units := [(1, unitG1)]\<rparr>)"
proof -
  have t1: "extractUInt64 (newDataExtractor unknownCategoryBuffer)
              = Inr (100, \<lparr>buffer = unknownCategoryBuffer, seekPosition = 8\<rparr>)"
    by (simp add: cursor_defs unknownCategoryBuffer_def)
  have t2: "extractUInt64 (newDataExtractor abortBuffer)
              = Inr (100, \<lparr>buffer = abortBuffer, seekPosition = 8\<rparr>)"
    by (simp add: cursor_defs abortBuffer_def)
  have u2: "getUnitByID (emptyManager\<lparr>units := [(2, unit2G1)]\<rparr>) i = Some u
              \<longleftrightarrow> i = 2 \<and> u = unit2G1" for i u
    by (auto simp: getUnitByID_def)
  have aw: "awaitsGroup unit2G1" "\<not> inheritedName unit2G1" "getGroupName unit2G1 = ''G1''"
    by (simp_all add: awaitsGroup_def inheritedName_def unit2G1_def getGroupName_def
        constructUnit_def isWeapon_def blankUnit_def objectPrototypeKeys_def)
  from groups_assigned_when_buffer_consumed [OF t1, of exampleDecoder emptyManager
      "emptyManager\<lparr>units := [(2, unit2G1)]\<rparr>" exampleApp]
    unknownCategoryBuffer_loop aw
  have "\<exists>m2. update exampleDecoder exampleApp emptyManager unknownCategoryBuffer = (Returned 100, m2) \<and>
      (\<exists>u'. getUnitByID m2 2 = Some u' \<and> getGroup u' = Some ''G1'' \<and> isMember m2 ''G1'' 2)"
    by (simp add: u2)
  moreover from groups_assigned_when_buffer_consumed [OF t2, of exampleDecoder emptyManager
      "emptyManager\<lparr>units := [(1, unitG1)]\<rparr>" exampleApp] abortBuffer_loop
  have "update exampleDecoder exampleApp emptyManager abortBuffer
     = (Returned 100, emptyManager\<lparr>units := [(1, unitG1)]\<rparr>)"
    by simp
  ultimately show ?thesis by simp
qed

text \<open>
  Why the condition is on the whole table: unit 1 awaits the group constructor, the
  step raises TypeError there, and unit 2, which awaits G1, is left without a group.
\<close>

lemma mixedManager_groups:
  "updateGroups mixedManager = (Some TypeError, mixedManager) \<and>
   getUnitByID mixedManager 2 = Some unit2G1 \<and> awaitsGroup unit2G1 \<and>
   \<not> inheritedName unit2G1 \<and> \<not> isMember mixedManager ''G1'' 2"
  by (simp add: updateGroups_def mixedManager_def emptyManager_def assignGroup_def
      getUnitByID_def getGroupName_def reporting_def unit2G1_def constructUnit_def
      isWeapon_def blankUnit_def inGroups_def objectPrototypeKeys_def Let_def
      awaitsGroup_def inheritedName_def isMember_def)

text \<open>
  What the group step does when no waiting unit has a group name that \<open>#groups\<close>
  inherits: units that wait with the same name become members of the one Group object
  of that name; a unit that has a group, or whose group name is empty, is left as it
  is.
\<close>

lemma group_membership_is_permanent:
  assumes "\<forall>i u. getUnitByID m i = Some u \<longrightarrow> awaitsGroup u \<longrightarrow> \<not> inheritedName u"
  shows "\<exists>m2. updateGroups m = (None, m2) \<and>
           (\<forall>i j u v. getUnitByID m i = Some u \<and> getUnitByID m j = Some v \<and>
                awaitsGroup u \<and> awaitsGroup v \<and> getGroupName u = getGroupName v \<longrightarrow>
                (\<exists>g. map_of (groups m2) (getGroupName u) = Some g \<and>
                     i \<in> set (members g) \<and> j \<in> set (members g))) \<and>
           (\<forall>i u. getUnitByID m i = Some u \<and> (getGroup u \<noteq> None \<or> getGroupName u = '''') \<longrightarrow>
                getUnitByID m2 i = Some u)"
proof -
  from updateGroups_effect [OF assms] obtain m2 where
    run: "updateGroups m = (None, m2)" and
    eff: "\<And>i u. getUnitByID m i = Some u \<Longrightarrow>
            getUnitByID m2 i
              = Some (if awaitsGroup u then u\<lparr>group := Some (getGroupName u)\<rparr> else u) \<and>
            (awaitsGroup u \<longrightarrow> isMember m2 (getGroupName u) i)"
    by blast
  have "\<exists>g. map_of (groups m2) (getGroupName u) = Some g \<and>
             i \<in> set (members g) \<and> j \<in> set (members g)"
    if "getUnitByID m i = Some u \<and> getUnitByID m j = Some v \<and>
        awaitsGroup u \<and> awaitsGroup v \<and> getGroupName u = getGroupName v" for i j u v
  proof -
    from that eff [of i u] eff [of j v]
    have "isMember m2 (getGroupName u) i" "isMember m2 (getGroupName u) j" by simp_all
    then show ?thesis by (auto simp: isMember_def split: option.splits)
  qed
  moreover have "getUnitByID m2 i = Some u"
    if "getUnitByID m i = Some u \<and> (getGroup u \<noteq> None \<or> getGroupName u = '''')" for i u
    using that eff [of i u] by (auto simp: awaitsGroup_def)
  ultimately show ?thesis using run by blast
qed

lemma constructorBuffer_loop:
  "decodeLoop exampleDecoder emptyManager \<lparr>buffer = constructorBuffer, seekPosition = 8\<rparr>
     = Finished constructorManager"
  apply (subst decodeLoop.simps, simp add: cursor_defs loop_defs exampleDecoder_def
      exampleSetData_def emptyManager_def constructorBuffer_def)
  apply (subst decodeLoop.simps, simp add: cursor_defs loop_defs exampleDecoder_def
      exampleSetData_def emptyManager_def constructorBuffer_def)
  apply (subst decodeLoop.simps, simp add: cursor_defs loop_defs exampleDecoder_def
      exampleSetData_def emptyManager_def constructorBuffer_def constructorManager_def
      reporting_def constructUnit_def isWeapon_def blankUnit_def)
  done

lemma constructorManager_groups:
  "updateGroups constructorManager = (Some TypeError, constructorManager)"
  by (simp add: updateGroups_def constructorManager_def emptyManager_def assignGroup_def
      getUnitByID_def getGroupName_def reporting_def constructUnit_def isWeapon_def
      blankUnit_def inGroups_def objectPrototypeKeys_def Let_def)

text \<open>
  Claim C6, on a group name that the object \<open>#groups\<close> inherits. Two new aircraft
  report the group name constructor. \<open>"constructor" in this.#groups\<close> is true of the
  empty object, so no Group is created, and the call of \<open>addMember\<close> on the inherited
  value raises TypeError: \<open>update\<close> leaves by the exception, neither unit is in a
  group and no Group object exists. The next call does the same.
\<close>

theorem inherited_group_name_raises:
  "update exampleDecoder exampleApp emptyManager constructorBuffer
     = (Threw TypeError, constructorManager) \<and>
   update exampleDecoder exampleApp constructorManager timeOnlyBuffer
     = (Threw TypeError, constructorManager) \<and>
   getUnitByID constructorManager 1 = Some (reporting 1 ''constructor'') \<and>
   getUnitByID constructorManager 3 = Some (reporting 3 ''constructor'') \<and>
   getGroup (reporting 1 ''constructor'') = None \<and>
   getGroup (reporting 3 ''constructor'') = None \<and>
   groups constructorManager = []"
proof -
  have t1: "extractUInt64 (newDataExtractor constructorBuffer)
              = Inr (100, \<lparr>buffer = constructorBuffer, seekPosition = 8\<rparr>)"
    by (simp add: cursor_defs constructorBuffer_def)
  have t2: "extractUInt64 (newDataExtractor timeOnlyBuffer)
              = Inr (100, \<lparr>buffer = timeOnlyBuffer, seekPosition = 8\<rparr>)"
    by (simp add: cursor_defs timeOnlyBuffer_def)
  have l2: "decodeLoop exampleDecoder constructorManager
              \<lparr>buffer = timeOnlyBuffer, seekPosition = 8\<rparr> = Finished constructorManager"
    by (subst decodeLoop.simps) (simp add: cursor_defs timeOnlyBuffer_def)
  have "update exampleDecoder exampleApp emptyManager constructorBuffer
          = (Threw TypeError, constructorManager)"
    by (simp add: update_def t1 constructorBuffer_loop afterLoop_def constructorManager_groups)
  moreover have "update exampleDecoder exampleApp constructorManager timeOnlyBuffer
          = (Threw TypeError, constructorManager)"
    by (simp add: update_def t2 l2 afterLoop_def constructorManager_groups)
  moreover have "getUnitByID constructorManager 1 = Some (reporting 1 ''constructor'')"
    "getUnitByID constructorManager 3 = Some (reporting 3 ''constructor'')"
    "groups constructorManager = []"
    by (simp_all add: getUnitByID_def constructorManager_def emptyManager_def)
  moreover have "getGroup (reporting i ''constructor'') = None" for i
    by (simp add: reporting_def constructUnit_def isWeapon_def blankUnit_def)
  ultimately show ?thesis by simp
qed

theorem inherited_group_name_raises_witness:
  "fst (update exampleDecoder exampleApp emptyManager constructorBuffer) = Threw TypeError \<and>
   \<not> isMember (snd (update exampleDecoder exampleApp emptyManager constructorBuffer))
        ''constructor'' 1 \<and>
   \<not> isMember (snd (update exampleDecoder exampleApp emptyManager constructorBuffer))
        ''constructor'' 3"
  using inherited_group_name_raises by (simp add: isMember_def)

section \<open>Detection methods\<close>

lemma tableExtends_refl: "tableExtends t t (\<lambda>k. {})"
  by (auto simp: tableExtends_def split: option.splits)

lemma tableExtends_trans:
  "tableExtends t t' a \<Longrightarrow> tableExtends t' t'' b \<Longrightarrow> tableExtends t t'' (\<lambda>k. a k \<union> b k)"
  unfolding tableExtends_def
  by (intro allI) (erule_tac x = k in allE, erule_tac x = k in allE,
      auto split: option.splits)

lemma noteContact_extends:
  "tableExtends t (noteContact t c)
     (\<lambda>k. if contactID c = k then {detectionMethod c} else {})"
  by (auto simp: tableExtends_def noteContact_def split: option.splits)

lemma tableExtends_eq:
  assumes "tableExtends t t' a" and "\<And>k. a k = b k"
  shows "tableExtends t t' b"
proof -
  from assms(2) have "a = b" by (rule ext)
  with assms(1) show ?thesis by simp
qed

lemma noteContacts_extends:
  "tableExtends t (foldl noteContact t cs)
     (\<lambda>k. detectionMethod ` {c \<in> set cs. contactID c = k})"
proof (induction cs arbitrary: t)
  case Nil
  show ?case using tableExtends_refl [of t] by simp
next
  case (Cons c cs)
  have "tableExtends t (foldl noteContact t (c # cs))
          (\<lambda>k. (if contactID c = k then {detectionMethod c} else {}) \<union>
                detectionMethod ` {c \<in> set cs. contactID c = k})"
    using tableExtends_trans [OF noteContact_extends Cons.IH] by simp
  then show ?case
    by (rule tableExtends_eq) auto
qed

lemma noteUnit_extends:
  "tableExtends t (noteUnit app t u)
     (\<lambda>k. if getAlive u \<and> belongsToCommandedCoalition app u
          then detectionMethod ` {c \<in> set (getContacts u). contactID c = k} else {})"
proof (cases "getAlive u \<and> belongsToCommandedCoalition app u")
  case True
  then have "noteUnit app t u = foldl noteContact t (getContacts u)"
    by (simp add: noteUnit_def)
  with noteContacts_extends [of t "getContacts u"] True show ?thesis
    by (auto elim: tableExtends_eq)
next
  case False
  then have "noteUnit app t u = t"
    by (auto simp: noteUnit_def)
  with tableExtends_refl [of t] False show ?thesis
    by (auto elim: tableExtends_eq)
qed

lemma noteUnits_extends:
  "tableExtends t (foldl (noteUnit app) t us)
     (\<lambda>k. \<Union>u \<in> {u \<in> set us. getAlive u \<and> belongsToCommandedCoalition app u}.
             detectionMethod ` {c \<in> set (getContacts u). contactID c = k})"
proof (induction us arbitrary: t)
  case Nil
  show ?case using tableExtends_refl [of t] by simp
next
  case (Cons u us)
  have "tableExtends t (foldl (noteUnit app) t (u # us))
          (\<lambda>k. (if getAlive u \<and> belongsToCommandedCoalition app u
                then detectionMethod ` {c \<in> set (getContacts u). contactID c = k} else {}) \<union>
               (\<Union>u \<in> {u \<in> set us. getAlive u \<and> belongsToCommandedCoalition app u}.
                  detectionMethod ` {c \<in> set (getContacts u). contactID c = k}))"
    using tableExtends_trans [OF noteUnit_extends Cons.IH] by simp
  then show ?case
    by (rule tableExtends_eq) auto
qed

lemma set_detectionsOf:
  "set (detectionsOf app m i)
     = (\<Union>u \<in> {u \<in> set (map snd (units m)). getAlive u \<and> belongsToCommandedCoalition app u}.
          detectionMethod ` {c \<in> set (getContacts u). contactID c = i})"
  unfolding detectionsOf_def by (induction "units m" arbitrary: m) auto

lemma fillDetections_unit:
  assumes "getUnitByID m i = Some u"
  shows "\<exists>ms. fillDetections app m i = Some ms \<and> distinct ms \<and>
              set ms = set (detectionsOf app m i)"
proof -
  from assms have "i \<in> set (map fst (units m))"
    by (auto simp: getUnitByID_def dest: map_of_SomeD intro: rev_image_eqI)
  then have e: "emptyDetections app m i = Some []"
    by (simp add: emptyDetections_def)
  from noteUnits_extends [of "emptyDetections app m" app "map snd (units m)"] e
  show ?thesis
    unfolding fillDetections_def set_detectionsOf tableExtends_def
    by (elim allE [of _ i]) auto
qed

lemma updateDetection_unit:
  assumes "requestDetectionUpdate m" and "\<not> gameMaster app" and "getUnitByID m i = Some u"
  shows "\<exists>ms. getUnitByID (updateDetection app m) i = Some (u\<lparr>detectionMethods := ms\<rparr>) \<and>
              distinct ms \<and> set ms = set (detectionsOf app m i)"
proof -
  from fillDetections_unit [OF assms(3), of app] obtain ms where
    ms: "fillDetections app m i = Some ms" "distinct ms" "set ms = set (detectionsOf app m i)"
    by blast
  with assms have "getUnitByID (updateDetection app m) i = Some (u\<lparr>detectionMethods := ms\<rparr>)"
    by (simp add: updateDetection_def getUnitByID_def map_of_setAllDetections
        setDetectionMethods_def)
  with ms show ?thesis by blast
qed

lemma assignGroup_flag:
  "assignGroup m i = Inr m' \<Longrightarrow> requestDetectionUpdate m' = requestDetectionUpdate m"
  by (auto simp: assignGroup_def addMember_def Let_def split: option.splits if_splits)

lemma assignGroups_flag:
  "assignGroups m ks = (r, m') \<Longrightarrow> requestDetectionUpdate m' = requestDetectionUpdate m"
proof (induction ks arbitrary: m)
  case Nil
  then show ?case by simp
next
  case (Cons k ks)
  then show ?case
    by (auto split: sum.splits dest: assignGroup_flag)
qed

text \<open>
  Claim C7 does not hold as stated. With the dirty flag set and the command mode
  \<open>GAME_MASTER\<close>, \<open>update\<close> recomputes nothing and leaves the flag set: unit 2 is
  seen by radar and visually by a live unit of the commanded coalition and keeps its
  empty list.
\<close>

theorem no_detection_update_in_game_master_mode:
  "update exampleDecoder gameMasterApp contactManager timeOnlyBuffer
     = (Returned 100, contactManager) \<and>
   requestDetectionUpdate contactManager \<and>
   map_option detectionMethods (getUnitByID contactManager 2) = Some [] \<and>
   detectionsOf gameMasterApp contactManager 2 = [1, 2, 1]"
proof -
  have t: "extractUInt64 (newDataExtractor timeOnlyBuffer)
              = Inr (100, \<lparr>buffer = timeOnlyBuffer, seekPosition = 8\<rparr>)"
    by (simp add: cursor_defs timeOnlyBuffer_def)
  have l: "decodeLoop exampleDecoder contactManager
              \<lparr>buffer = timeOnlyBuffer, seekPosition = 8\<rparr> = Finished contactManager"
    by (subst decodeLoop.simps) (simp add: cursor_defs timeOnlyBuffer_def)
  have g: "updateGroups contactManager = (None, contactManager)"
    by (simp add: updateGroups_def contactManager_def assignGroup_def getUnitByID_def
        getGroupName_def ofCoalition_def blankUnit_def initialData_def Let_def)
  have d: "updateDetection gameMasterApp contactManager = contactManager"
    by (simp add: updateDetection_def gameMasterApp_def)
  have "update exampleDecoder gameMasterApp contactManager timeOnlyBuffer
          = (Returned 100, contactManager)"
    by (simp add: update_def t l afterLoop_def g d)
  moreover have "requestDetectionUpdate contactManager"
    "map_option detectionMethods (getUnitByID contactManager 2) = Some []"
    by (simp_all add: contactManager_def getUnitByID_def ofCoalition_def blankUnit_def)
  moreover have "detectionsOf gameMasterApp contactManager 2 = [1, 2, 1]"
    by (simp add: detectionsOf_def contactManager_def gameMasterApp_def exampleApp_def
        getAlive_def belongsToCommandedCoalition_def ofCoalition_def blankUnit_def
        initialData_def)
  ultimately show ?thesis by simp
qed

text \<open>
  Claim C7, amended. Let the decode loop consume the whole buffer and the group step
  end without exception, leaving the manager in state \<open>mg\<close>; \<open>update\<close> then returns
  with the manager in state \<open>updateDetection app mg\<close>. If the dirty flag is set in
  \<open>mg\<close> and the command mode is not \<open>GAME_MASTER\<close>, every unit's list of detection
  methods is afterwards free of duplicates and holds exactly the methods of the
  contacts with that unit as target in the contact lists of the units that are alive
  and belong to the commanded coalition, and the flag is cleared. If the flag is not
  set, or the mode is \<open>GAME_MASTER\<close>, nothing is recomputed and the flag stays.
\<close>

theorem detection_update_is_gated:
  assumes "extractUInt64 (newDataExtractor buf) = Inr (updateTime, d0)"
    and "decodeLoop dec m d0 = Finished m1"
    and "updateGroups m1 = (None, mg)"
  shows "update dec app m buf = (Returned updateTime, updateDetection app mg) \<and>
         requestDetectionUpdate mg = requestDetectionUpdate m1 \<and>
         (requestDetectionUpdate mg \<and> \<not> gameMaster app \<longrightarrow>
            \<not> requestDetectionUpdate (updateDetection app mg) \<and>
            (\<forall>i u. getUnitByID mg i = Some u \<longrightarrow>
               (\<exists>ms. getUnitByID (updateDetection app mg) i = Some (u\<lparr>detectionMethods := ms\<rparr>) \<and>
                     distinct ms \<and> set ms = set (detectionsOf app mg i)))) \<and>
         (\<not> requestDetectionUpdate mg \<or> gameMaster app \<longrightarrow> updateDetection app mg = mg)"
proof -
  from assms have "update dec app m buf = (Returned updateTime, updateDetection app mg)"
    by (simp add: update_def afterLoop_def)
  moreover from assms(3) have "requestDetectionUpdate mg = requestDetectionUpdate m1"
    unfolding updateGroups_def by (rule assignGroups_flag)
  moreover have "\<not> requestDetectionUpdate (updateDetection app mg)"
    if "requestDetectionUpdate mg \<and> \<not> gameMaster app"
    using that by (simp add: updateDetection_def)
  moreover have "\<not> requestDetectionUpdate mg \<or> gameMaster app \<longrightarrow> updateDetection app mg = mg"
    by (auto simp: updateDetection_def)
  ultimately show ?thesis
    using updateDetection_unit [of mg app] by blast
qed

theorem detection_update_is_gated_witness:
  "update exampleDecoder exampleApp contactManager timeOnlyBuffer
     = (Returned 100, updateDetection exampleApp contactManager) \<and>
   \<not> requestDetectionUpdate (updateDetection exampleApp contactManager) \<and>
   map_option detectionMethods (getUnitByID (updateDetection exampleApp contactManager) 2)
     = Some [1, 2] \<and>
   updateDetection gameMasterApp contactManager = contactManager \<and>
   updateDetection exampleApp (contactManager\<lparr>requestDetectionUpdate := False\<rparr>)
     = contactManager\<lparr>requestDetectionUpdate := False\<rparr>"
proof -
  have t: "extractUInt64 (newDataExtractor timeOnlyBuffer)
              = Inr (100, \<lparr>buffer = timeOnlyBuffer, seekPosition = 8\<rparr>)"
    by (simp add: cursor_defs timeOnlyBuffer_def)
  have l: "decodeLoop dec contactManager
              \<lparr>buffer = timeOnlyBuffer, seekPosition = 8\<rparr> = Finished contactManager" for dec
    by (subst decodeLoop.simps) (simp add: cursor_defs timeOnlyBuffer_def)
  have l': "decodeLoop dec (contactManager\<lparr>requestDetectionUpdate := False\<rparr>)
              \<lparr>buffer = timeOnlyBuffer, seekPosition = 8\<rparr>
            = Finished (contactManager\<lparr>requestDetectionUpdate := False\<rparr>)" for dec
    by (subst decodeLoop.simps) (simp add: cursor_defs timeOnlyBuffer_def)
  have g: "updateGroups contactManager = (None, contactManager)"
    by (simp add: updateGroups_def contactManager_def assignGroup_def getUnitByID_def
        getGroupName_def ofCoalition_def blankUnit_def initialData_def Let_def)
  have g': "updateGroups (contactManager\<lparr>requestDetectionUpdate := False\<rparr>)
              = (None, contactManager\<lparr>requestDetectionUpdate := False\<rparr>)"
    by (simp add: updateGroups_def contactManager_def assignGroup_def getUnitByID_def
        getGroupName_def ofCoalition_def blankUnit_def initialData_def Let_def)
  have flag: "requestDetectionUpdate contactManager" "\<not> gameMaster exampleApp"
    "gameMaster gameMasterApp"
    by (simp_all add: contactManager_def exampleApp_def gameMasterApp_def)
  have u2: "getUnitByID contactManager 2 = Some (ofCoalition (blankUnit Aircraft 2) ''red'')"
    by (simp add: contactManager_def getUnitByID_def)
  have ds: "detectionsOf exampleApp contactManager 2 = [1, 2, 1]"
    by (simp add: detectionsOf_def contactManager_def exampleApp_def
        getAlive_def belongsToCommandedCoalition_def ofCoalition_def blankUnit_def
        initialData_def)
  note a = detection_update_is_gated [OF t l g, of exampleDecoder exampleApp]
  note b = detection_update_is_gated [OF t l g, of exampleDecoder gameMasterApp]
  note c = detection_update_is_gated [OF t l' g', of exampleDecoder exampleApp]
  from a flag u2 obtain ms where
    ms: "getUnitByID (updateDetection exampleApp contactManager) 2
           = Some ((ofCoalition (blankUnit Aircraft 2) ''red'')\<lparr>detectionMethods := ms\<rparr>)"
        "distinct ms" "set ms = set (detectionsOf exampleApp contactManager 2)"
    by blast
  have exact: "map_option detectionMethods
                 (getUnitByID (updateDetection exampleApp contactManager) 2) = Some [1, 2]"
    by (simp add: updateDetection_def getUnitByID_def map_of_setAllDetections flag
        fillDetections_def emptyDetections_def noteUnit_def noteContact_def
        setDetectionMethods_def contactManager_def exampleApp_def getAlive_def
        belongsToCommandedCoalition_def ofCoalition_def blankUnit_def initialData_def)
  from a b c flag exact show ?thesis by simp
qed

section \<open>Partial updates of a unit\<close>

lemma afterSetData_raises:
  "upd_flightData d = None \<or> upd_baseData d = None \<Longrightarrow> afterSetData env u d = u"
  using setData_raises [of d env u] by (simp add: afterSetData_def)

lemma afterSetData_data:
  "upd_flightData d = Some f \<Longrightarrow> upd_baseData d = Some b \<Longrightarrow>
     data (afterSetData env u d) = mergeData (data u) d"
  using setData_returns [of d f b env u]
  by (auto simp: afterSetData_def dest: setData_selected(2))

subsection \<open>Field by field\<close>

lemma in_has [simp]: "g \<in> set (has x f) \<longleftrightarrow> x \<noteq> None \<and> g = f"
  by (cases x) (auto simp: has_def)

lemma held_None [simp]: "held r sel v = None \<longleftrightarrow> (\<forall>s. r = Some s \<longrightarrow> sel s = None)"
  by (simp add: held_def split: option.splits)

lemma in_fieldsOf: "F \<in> set (fieldsOf d) \<longleftrightarrow> updateValue F d \<noteq> None"
  by (cases F; cases "upd_baseData d"; cases "upd_flightData d"; cases "upd_missionData d";
      cases "upd_formationData d"; cases "upd_taskData d"; cases "upd_optionsData d")
     (simp_all add: fieldsOf_def sub_def baseFields_def flightFields_def missionFields_def
        formationFields_def taskFields_def optionsFields_def)

lemma mergeData_field:
  "fieldValue F (mergeData x d)
     = (case updateValue F d of None \<Rightarrow> fieldValue F x | Some v \<Rightarrow> v)"
  by (cases F)
     (simp_all add: mergeData_def mergeBase_def mergeFlight_def mergeMission_def
        mergeFormation_def mergeTask_def mergeOptions_def setField_def held_def
        split: option.splits)

lemma updateValue_merge:
  "updateValue F (mergeUpdate a b)
     = (case updateValue F b of None \<Rightarrow> updateValue F a | Some v \<Rightarrow> Some v)"
  by (cases F)
     (simp_all add: mergeUpdate_def mergeSub_def joinBase_def joinFlight_def joinMission_def
        joinFormation_def joinTask_def joinOptions_def pick_def held_def
        split: option.splits)

lemma updateValue_empty [simp]: "updateValue F emptyUpdate = None"
  by (cases F) (simp_all add: emptyUpdate_def held_def)

lemma data_by_fields:
  assumes "\<And>F. fieldValue F x = fieldValue F y"
  shows "x = y"
proof -
  have "baseData x = baseData y"
    using assms [of F_AI] assms [of F_name] assms [of F_unitName] assms [of F_groupName]
      assms [of F_alive] assms [of F_category]
    by (intro BaseData.equality) simp_all
  moreover have "flightData x = flightData y"
    using assms [of F_latitude] assms [of F_longitude] assms [of F_altitude]
      assms [of F_heading] assms [of F_speed]
    by (intro FlightData.equality) simp_all
  moreover have "missionData x = missionData y"
    using assms [of F_fuel] assms [of F_flags] assms [of F_ammo] assms [of F_targets]
      assms [of F_hasTask] assms [of F_coalition]
    by (intro MissionData.equality) simp_all
  moreover have "formationData x = formationData y"
    using assms [of F_leaderID]
    by (intro FormationData.equality) simp_all
  moreover have "taskData x = taskData y"
    using assms [of F_currentState] assms [of F_currentTask] assms [of F_activePath]
      assms [of F_targetSpeed] assms [of F_targetAltitude] assms [of F_isTanker]
      assms [of F_isAWACS] assms [of F_TACANOn] assms [of F_TACANChannel]
      assms [of F_TACANXY] assms [of F_TACANCallsign] assms [of F_radioFrequency]
      assms [of F_radioCallsign] assms [of F_radioCallsignNumber] assms [of F_radioAMFM]
    by (intro TaskData.equality) simp_all
  moreover have "optionsData x = optionsData y"
    using assms [of F_ROE] assms [of F_reactionToThreat]
    by (intro OptionsData.equality) simp_all
  ultimately show ?thesis
    by (intro UnitData.equality) simp_all
qed

text \<open>
  The frame of \<open>setData\<close>: after the call, whether it returned or raised, a field holds
  the value of the update when the update is applicable and contains the field, and
  its previous value otherwise.
\<close>

lemma setData_frame:
  "fieldValue F (data (afterSetData env u d))
     = (case (if applicable d then updateValue F d else None) of
          None \<Rightarrow> fieldValue F (data u) | Some v \<Rightarrow> v)"
proof (cases "applicable d")
  case True
  then obtain f b where "upd_flightData d = Some f" "upd_baseData d = Some b"
    by (auto simp: applicable_def)
  from afterSetData_data [OF this] True show ?thesis
    by (simp add: mergeData_field)
next
  case False
  then have "afterSetData env u d = u"
    by (intro afterSetData_raises) (auto simp: applicable_def)
  with False show ?thesis by simp
qed

lemma absent_field_kept:
  "F \<notin> set (fieldsOf d) \<Longrightarrow>
     fieldValue F (data (afterSetData env u d)) = fieldValue F (data u)"
  by (simp add: setData_frame in_fieldsOf)

lemma changed_field_is_in_update:
  "fieldValue F (data (afterSetData env u d)) \<noteq> fieldValue F (data u) \<Longrightarrow>
     F \<in> set (fieldsOf d)"
  using absent_field_kept by blast

text \<open>
  An update that holds a fuel value and the two sub-records that \<open>setData\<close> reads,
  both empty, changes the fuel and no other field.
\<close>

lemma fuelUpdate_changes_fuel_only:
  "\<exists>u'. setData env u (fuelUpdate v) = Inr u' \<and>
        data u' = (data u)\<lparr>missionData := (missionData (data u))\<lparr>fuel := v\<rparr>\<rparr>"
proof -
  obtain u' where u': "setData env u (fuelUpdate v) = Inr u'"
    using setData_returns [of "fuelUpdate v" noFlight noBase]
    by (auto simp: fuelUpdate_def bareUpdate_def emptyUpdate_def)
  from setData_selected(2) [OF u']
  have "data u' = (data u)\<lparr>missionData := (missionData (data u))\<lparr>fuel := v\<rparr>\<rparr>"
    by (simp add: fuelUpdate_def bareUpdate_def emptyUpdate_def noBase_def noFlight_def
        noMission_def mergeData_def mergeBase_def mergeFlight_def mergeMission_def
        setField_def)
  with u' show ?thesis by blast
qed

text \<open>
  Claim C3, on the update \<open>{missionData: {fuel: 10}}\<close>, which contains a new fuel
  value and nothing else. \<open>setData\<close> reads \<open>data.flightData.latitude\<close> before it tests
  \<open>data.flightData != undefined\<close>, so the call raises TypeError and the unit keeps its
  fuel of 50.
\<close>

theorem fuel_only_update_raises:
  "setData exampleEnv (withFuel (blankUnit Aircraft 5) 50) fuelOnlyUpdate = Inl TypeError \<and>
   fieldsOf fuelOnlyUpdate = [F_fuel] \<and>
   fuel (missionData (data (afterSetData exampleEnv (withFuel (blankUnit Aircraft 5) 50)
                               fuelOnlyUpdate))) = 50"
proof -
  have r: "setData exampleEnv (withFuel (blankUnit Aircraft 5) 50) fuelOnlyUpdate = Inl TypeError"
    by (simp add: setData_def fuelOnlyUpdate_def emptyUpdate_def)
  moreover have "fieldsOf fuelOnlyUpdate = [F_fuel]"
    by (simp add: fieldsOf_def sub_def missionFields_def has_def fuelOnlyUpdate_def
        emptyUpdate_def noMission_def)
  moreover have "fuel (missionData (data (afterSetData exampleEnv
                   (withFuel (blankUnit Aircraft 5) 50) fuelOnlyUpdate))) = 50"
    by (simp add: afterSetData_def r, simp add: withFuel_def)
  ultimately show ?thesis by simp
qed

theorem fuel_only_update_raises_witness:
  "afterSetData exampleEnv (withFuel (blankUnit Aircraft 5) 50) fuelOnlyUpdate
     = withFuel (blankUnit Aircraft 5) 50"
  using fuel_only_update_raises by (simp add: afterSetData_def)

subsection \<open>Updates one at a time and merged\<close>

lemma applyUpdates_field:
  assumes "\<forall>d \<in> set ds. applicable d"
  shows "fieldValue F (data (applyUpdates env u ds))
           = foldl (\<lambda>acc d. setField (updateValue F d) acc) (fieldValue F (data u)) ds"
  using assms
proof (induction ds arbitrary: u)
  case Nil
  then show ?case by (simp add: applyUpdates_def)
next
  case (Cons d ds)
  then have "fieldValue F (data (afterSetData env u d))
               = setField (updateValue F d) (fieldValue F (data u))"
    by (simp add: setData_frame setField_def)
  with Cons show ?case
    by (simp add: applyUpdates_def)
qed

lemma mergeUpdates_field:
  "updateValue F (foldl mergeUpdate a ds)
     = foldl (\<lambda>acc d. pick acc (updateValue F d)) (updateValue F a) ds"
proof (induction ds arbitrary: a)
  case Nil
  show ?case by simp
next
  case (Cons d ds)
  have "updateValue F (mergeUpdate a d) = pick (updateValue F a) (updateValue F d)"
    by (simp add: updateValue_merge pick_def)
  with Cons [of "mergeUpdate a d"] show ?case by simp
qed

lemma overwrite_by_picked:
  "foldl (\<lambda>acc d. setField (g d) acc) x ds
     = setField (foldl (\<lambda>acc d. pick acc (g d)) None ds) x"
proof -
  have "foldl (\<lambda>acc d. setField (g d) acc) (setField p x) ds
          = setField (foldl (\<lambda>acc d. pick acc (g d)) p ds) x" for p
  proof (induction ds arbitrary: p)
    case Nil
    show ?case by simp
  next
    case (Cons d ds)
    have "setField (g d) (setField p x) = setField (pick p (g d)) x"
      by (simp add: setField_def pick_def split: option.splits)
    with Cons [of "pick p (g d)"] show ?case by simp
  qed
  from this [of None] show ?thesis by (simp add: setField_def)
qed

text \<open>
  When no two different updates of the list hold a value for the field, the picked
  value is the value of whichever update holds one, so it depends on the updates in
  the list only, not on their order.
\<close>

lemma picked_value:
  assumes "\<forall>a \<in> set ds. \<forall>b \<in> set ds. g a \<noteq> None \<longrightarrow> g b \<noteq> None \<longrightarrow> a = b"
  shows "(\<forall>d \<in> set ds. g d \<noteq> None \<longrightarrow> foldl (\<lambda>acc d. pick acc (g d)) None ds = g d) \<and>
         ((\<forall>d \<in> set ds. g d = None) \<longrightarrow> foldl (\<lambda>acc d. pick acc (g d)) None ds = None)"
  using assms
proof (induction ds rule: rev_induct)
  case Nil
  show ?case by simp
next
  case (snoc e ds)
  let ?r = "foldl (\<lambda>acc d. pick acc (g d)) None ds"
  have IH: "(\<forall>d \<in> set ds. g d \<noteq> None \<longrightarrow> ?r = g d) \<and>
            ((\<forall>d \<in> set ds. g d = None) \<longrightarrow> ?r = None)"
    using snoc by simp
  show ?case
  proof (cases "g e")
    case None
    with IH show ?thesis by (simp add: pick_def)
  next
    case (Some v)
    have "g d = g e" if "d \<in> set ds" "g d \<noteq> None" for d
    proof -
      from snoc.prems that Some have "d = e" by simp
      then show ?thesis by simp
    qed
    with Some show ?thesis by (auto simp: pick_def)
  qed
qed

lemma picked_value_order:
  assumes "\<forall>a \<in> set ds. \<forall>b \<in> set ds. g a \<noteq> None \<longrightarrow> g b \<noteq> None \<longrightarrow> a = b"
    and "set ds' = set ds"
  shows "foldl (\<lambda>acc d. pick acc (g d)) None ds' = foldl (\<lambda>acc d. pick acc (g d)) None ds"
proof (cases "\<exists>d \<in> set ds. g d \<noteq> None")
  case True
  then obtain d where "d \<in> set ds" "g d \<noteq> None" by blast
  with picked_value [of ds g] picked_value [of ds' g] assms show ?thesis by simp
next
  case False
  with picked_value [of ds g] picked_value [of ds' g] assms show ?thesis by simp
qed

lemma applicable_mergeUpdates:
  "ds \<noteq> [] \<Longrightarrow> \<forall>d \<in> set ds. applicable d \<Longrightarrow> applicable (mergeUpdates ds)"
proof -
  have keep: "applicable a \<Longrightarrow> applicable (foldl mergeUpdate a ds)" for a ds
  proof (induction ds arbitrary: a)
    case Nil
    then show ?case by simp
  next
    case (Cons d ds)
    from Cons.prems have "applicable (mergeUpdate a d)"
      by (auto simp: applicable_def mergeUpdate_def mergeSub_def split: option.splits)
    then show ?case using Cons.IH by simp
  qed
  assume "ds \<noteq> []" "\<forall>d \<in> set ds. applicable d"
  then obtain d ds0 where ds: "ds = d # ds0" and d: "applicable d"
    by (cases ds) auto
  from d have "applicable (mergeUpdate emptyUpdate d)"
    by (auto simp: applicable_def mergeUpdate_def mergeSub_def emptyUpdate_def)
  from keep [OF this] ds show ?thesis
    by (simp add: mergeUpdates_def)
qed

text \<open>
  What holds of claim C4: for updates that \<open>setData\<close> applies (each has the
  \<open>baseData\<close> and \<open>flightData\<close> sub-records, empty or not) and of which no two
  different ones contain the same field, applying them one at a time in any order
  gives the unit data that the merged update gives.
\<close>

lemma applicable_updates_commute_with_merge:
  assumes "ds \<noteq> []" and "\<forall>d \<in> set ds. applicable d"
    and "\<forall>a \<in> set ds. \<forall>b \<in> set ds. a \<noteq> b \<longrightarrow> disjointFields a b"
    and "mset ds' = mset ds"
  shows "data (applyUpdates env u ds') = data (afterSetData env u (mergeUpdates ds))"
proof (rule data_by_fields)
  fix F
  let ?g = "updateValue F"
  from assms(4) have sets: "set ds' = set ds" by (rule mset_eq_setD)
  have uniq: "\<forall>a \<in> set ds. \<forall>b \<in> set ds. ?g a \<noteq> None \<longrightarrow> ?g b \<noteq> None \<longrightarrow> a = b"
  proof (intro ballI impI)
    fix a b
    assume ab: "a \<in> set ds" "b \<in> set ds" and h: "?g a \<noteq> None" "?g b \<noteq> None"
    show "a = b"
    proof (rule ccontr)
      assume "a \<noteq> b"
      with assms(3) ab have "set (fieldsOf a) \<inter> set (fieldsOf b) = {}"
        by (simp add: disjointFields_def)
      moreover from h have "F \<in> set (fieldsOf a)" "F \<in> set (fieldsOf b)"
        by (simp_all add: in_fieldsOf)
      ultimately show False by blast
    qed
  qed
  have "fieldValue F (data (applyUpdates env u ds'))
          = setField (foldl (\<lambda>acc d. pick acc (?g d)) None ds') (fieldValue F (data u))"
    using assms(2) sets by (simp add: applyUpdates_field overwrite_by_picked)
  also have "\<dots> = setField (foldl (\<lambda>acc d. pick acc (?g d)) None ds) (fieldValue F (data u))"
    using picked_value_order [OF uniq sets] by simp
  also have "\<dots> = setField (updateValue F (mergeUpdates ds)) (fieldValue F (data u))"
    by (simp add: mergeUpdates_def mergeUpdates_field)
  also have "\<dots> = fieldValue F (data (afterSetData env u (mergeUpdates ds)))"
    using applicable_mergeUpdates [OF assms(1,2)]
    by (simp add: setData_frame setField_def)
  finally show "fieldValue F (data (applyUpdates env u ds'))
                  = fieldValue F (data (afterSetData env u (mergeUpdates ds)))" .
qed

text \<open>
  Claim C4, on the updates \<open>{baseData: {name: "F-5E"}}\<close> and
  \<open>{flightData: {heading: 1}}\<close>, whose field sets are disjoint. Applied one at a time
  to a new aircraft, in either order, each call raises TypeError (the first has no
  \<open>flightData\<close>, the second no \<open>baseData\<close>) and the unit data stay as they were; the
  merged update \<open>{baseData: {name: "F-5E"}, flightData: {heading: 1}}\<close> is applied and
  sets both fields.
\<close>

theorem disjoint_updates_differ_from_merged:
  "disjointFields nameOnlyUpdate headingOnlyUpdate \<and>
   newUnit exampleEnv Aircraft 1 bareUpdate = Inr ((blankUnit Aircraft 1)\<lparr>onMap := True\<rparr>) \<and>
   data (applyUpdates exampleEnv ((blankUnit Aircraft 1)\<lparr>onMap := True\<rparr>)
           [nameOnlyUpdate, headingOnlyUpdate]) = initialData \<and>
   data (applyUpdates exampleEnv ((blankUnit Aircraft 1)\<lparr>onMap := True\<rparr>)
           [headingOnlyUpdate, nameOnlyUpdate]) = initialData \<and>
   data (afterSetData exampleEnv ((blankUnit Aircraft 1)\<lparr>onMap := True\<rparr>)
           (mergeUpdates [nameOnlyUpdate, headingOnlyUpdate]))
     = initialData\<lparr>baseData := (baseData initialData)\<lparr>name := ''F-5E''\<rparr>,
                   flightData := (flightData initialData)\<lparr>heading := 1\<rparr>\<rparr>"
proof -
  let ?u = "(blankUnit Aircraft 1)\<lparr>onMap := True\<rparr>"
  have dis: "disjointFields nameOnlyUpdate headingOnlyUpdate"
    by (simp add: disjointFields_def fieldsOf_def sub_def baseFields_def flightFields_def
        has_def nameOnlyUpdate_def headingOnlyUpdate_def emptyUpdate_def noBase_def
        noFlight_def)
  have n: "afterSetData exampleEnv v nameOnlyUpdate = v" for v
    by (rule afterSetData_raises) (simp add: nameOnlyUpdate_def emptyUpdate_def)
  have h: "afterSetData exampleEnv v headingOnlyUpdate = v" for v
    by (rule afterSetData_raises) (simp add: headingOnlyUpdate_def emptyUpdate_def)
  have seq: "applyUpdates exampleEnv ?u [nameOnlyUpdate, headingOnlyUpdate] = ?u"
    "applyUpdates exampleEnv ?u [headingOnlyUpdate, nameOnlyUpdate] = ?u"
    by (simp_all add: applyUpdates_def n h)
  have m: "mergeUpdates [nameOnlyUpdate, headingOnlyUpdate]
             = emptyUpdate\<lparr>upd_baseData := Some (noBase\<lparr>upd_name := Some ''F-5E''\<rparr>),
                           upd_flightData := Some (noFlight\<lparr>upd_heading := Some 1\<rparr>)\<rparr>"
    by (simp add: mergeUpdates_def mergeUpdate_def mergeSub_def nameOnlyUpdate_def
        headingOnlyUpdate_def emptyUpdate_def)
  have "data (afterSetData exampleEnv ?u (mergeUpdates [nameOnlyUpdate, headingOnlyUpdate]))
          = mergeData (data ?u) (mergeUpdates [nameOnlyUpdate, headingOnlyUpdate])"
    by (rule afterSetData_data) (simp_all add: m)
  also have "\<dots> = initialData\<lparr>baseData := (baseData initialData)\<lparr>name := ''F-5E''\<rparr>,
                   flightData := (flightData initialData)\<lparr>heading := 1\<rparr>\<rparr>"
    by (simp add: m mergeData_def mergeBase_def mergeFlight_def setField_def emptyUpdate_def
        noBase_def noFlight_def blankUnit_def initialData_def)
  finally show ?thesis
    using dis seq newUnit_bare_aircraft by (simp add: blankUnit_def)
qed

theorem disjoint_updates_differ_from_merged_witness:
  "data (applyUpdates exampleEnv ((blankUnit Aircraft 1)\<lparr>onMap := True\<rparr>)
           [nameOnlyUpdate, headingOnlyUpdate])
     \<noteq> data (afterSetData exampleEnv ((blankUnit Aircraft 1)\<lparr>onMap := True\<rparr>)
           (mergeUpdates [nameOnlyUpdate, headingOnlyUpdate]))"
  using disjoint_updates_differ_from_merged by (simp add: initialData_def)

end
